theory Spec2Isabelle
  imports Main "HOL-Library.Multiset" "HOL-Library.Char_ord" "HOL-Library.List_Lexorder"
begin

section \<open>Errors, results and the interaction history\<close>

text \<open>
  A Go \<open>error\<close> value is modelled by its message, together with the one dynamic type the
  program inspects with \<open>errors.As\<close>: the IAM \<open>EntityAlreadyExistsException\<close>.
  \<open>fmt.Errorf("...: %v", err)\<close> formats the message of \<open>err\<close> into a new plain error
  (the verb \<open>%v\<close> does not wrap), which is \<open>Errorf prefix err\<close>.
\<close>

datatype error = EntityAlreadyExistsException string | ErrorString string

fun Error_msg :: "error \<Rightarrow> string" where
  "Error_msg (EntityAlreadyExistsException m) = m"
| "Error_msg (ErrorString m) = m"

definition Errorf :: "string \<Rightarrow> error \<Rightarrow> error" where
  "Errorf prefix e = ErrorString (prefix @ Error_msg e)"

fun errors_As_EntityAlreadyExists :: "error \<Rightarrow> bool" where
  "errors_As_EntityAlreadyExists (EntityAlreadyExistsException m) = True"
| "errors_As_EntityAlreadyExists (ErrorString m) = False"

text \<open>
  A function of the program either returns a value, returns a non-nil \<open>error\<close>, or
  panics (nil dereference, index out of range). For \<open>main\<close>, \<open>Err\<close> is the message
  of \<open>log.Fatalf\<close>, which ends the process.
\<close>

datatype 'a result = Ok 'a | Err error | Panic

definition aws_ToString :: "string option \<Rightarrow> string" where
  "aws_ToString p = (case p of None \<Rightarrow> [] | Some s \<Rightarrow> s)"

section \<open>The version resolver\<close>

text \<open>
  \<open>sort.Slice\<close> is the Go standard library: it sorts the slice in place with respect to
  the given \<open>less\<close> function. It is modelled by insertion sort under the same comparison;
  for a strict total order on strings every sorting algorithm yields the same slice.
  Go compares strings bytewise and lexicographically, as the order on \<open>string\<close> does here.
\<close>

fun insert_by :: "('a \<Rightarrow> 'a \<Rightarrow> bool) \<Rightarrow> 'a \<Rightarrow> 'a list \<Rightarrow> 'a list" where
  "insert_by lt x [] = [x]"
| "insert_by lt x (y # ys) = (if lt y x then y # insert_by lt x ys else x # y # ys)"

fun sort_Slice :: "('a \<Rightarrow> 'a \<Rightarrow> bool) \<Rightarrow> 'a list \<Rightarrow> 'a list" where
  "sort_Slice lt [] = []"
| "sort_Slice lt (x # xs) = insert_by lt x (sort_Slice lt xs)"

text \<open>
  \<open>getLatestVersion\<close> sorts with \<open>versions[i] > versions[j]\<close> and returns \<open>versions[0]\<close>,
  which panics (index out of range) on an empty slice.
\<close>

definition getLatestVersion :: "string list \<Rightarrow> string result" where
  "getLatestVersion versions =
     (case sort_Slice (\<lambda>a b. a > b) versions of
        [] \<Rightarrow> Panic
      | v # _ \<Rightarrow> Ok v)"

text \<open>The specification's wording: the list sorted in descending lexicographic order.\<close>

definition sorted_descending :: "string list \<Rightarrow> string list" where
  "sorted_descending versions = rev (sort versions)"

section \<open>The Cloud Gateway and the operator\<close>

text \<open>
  The program owns no state: everything it knows comes from answers of the AWS SDK
  (the Cloud Gateway) and of the \<open>survey\<close> prompts (the operator). Each request the
  program issues is a \<open>call\<close>; the \<open>history\<close> is the list of calls issued so far, oldest
  first. Every SDK client is built from the configuration loaded by the
  \<open>LoadDefaultConfig\<close> call that precedes it, so the region is not repeated in the calls.
\<close>

type_synonym tags = "(string \<times> string) list"

datatype selector = Everything | Filter string "string list" | Ids "string list"

text \<open>
  The fields of \<open>eks.CreateClusterInput\<close> the program sets. \<open>AccessConfig\<close> holds the
  authentication mode and \<open>BootstrapClusterCreatorAdminPermissions\<close>.
\<close>

record CreateClusterInput =
  Name :: string
  Version :: string
  RoleArn :: string
  SubnetIds :: "string list"
  SecurityGroupIds :: "string list"
  AccessConfig :: "(string \<times> bool) option"
  ClusterTags :: tags
  ComputeConfig_Enabled :: "bool option"
  ElasticLoadBalancing_Enabled :: "bool option"
  BlockStorage_Enabled :: "bool option"

text \<open>
  The prompts of \<open>survey\<close>: \<open>Select\<close> (message, options), \<open>Input\<close> (message, default,
  whether the \<open>Required\<close> validator is set), \<open>Confirm\<close> (message, default) and
  \<open>MultiSelect\<close> (message, options).
\<close>

datatype prompt =
    Select string "string list"
  | Input string string bool
  | Confirm string bool
  | MultiSelect string "string list"

datatype call =
    config_LoadDefaultConfig string
  | sts_GetCallerIdentity
  | iam_CreateRole string string
  | iam_AttachRolePolicy string string
  | ec2_CreateVpc string tags
  | ec2_CreateSubnet string string string tags
  | ec2_ModifySubnetAttribute string bool
  | ec2_CreateInternetGateway tags
  | ec2_AttachInternetGateway string string
  | ec2_CreateRouteTable string tags
  | ec2_CreateRoute string string string
  | ec2_AssociateRouteTable string string
  | ec2_CreateSecurityGroup string string string tags
  | eks_CreateCluster CreateClusterInput
  | eks_CreateAddon string string
  | ec2_DescribeVpcs selector
  | ec2_DescribeSubnets selector
  | ec2_DescribeInternetGateways selector
  | ec2_DescribeRouteTables selector
  | ec2_DescribeSecurityGroups selector
  | eks_DescribeClusterVersions bool
  | eks_ListClusters
  | eks_DescribeCluster string
  | eks_DeleteCluster string
  | ec2_DescribeNetworkInterfaces selector
  | ec2_DetachNetworkInterface "string option" bool
  | ec2_DeleteNetworkInterface "string option"
  | ec2_DetachInternetGateway string string
  | ec2_DeleteInternetGateway string
  | ec2_DeleteSubnet string
  | ec2_DeleteRouteTable string
  | ec2_DeleteSecurityGroup string
  | ec2_DeleteVpc string
  | survey_AskOne prompt

type_synonym history = "call list"

text \<open>
  The parts of the SDK outputs the program reads. A field of Go type \<open>*string\<close>,
  \<open>*bool\<close> or pointer to struct is an \<open>option\<close> (\<open>None\<close> is nil); a nil map is \<open>None\<close>.
  The outputs of \<open>CreateVpc\<close>, \<open>CreateSubnet\<close>, \<open>CreateInternetGateway\<close> and
  \<open>CreateRouteTable\<close> hold a pointer to the created resource (\<open>Vpc\<close>, \<open>Subnet\<close>,
  \<open>InternetGateway\<close>, \<open>RouteTable\<close>), of which the program reads the identifier field
  (\<open>VpcId\<close>, \<open>SubnetId\<close>, \<open>InternetGatewayId\<close>, \<open>RouteTableId\<close>): \<open>created\<close> is that
  struct and \<open>ResourceId\<close> that field. The program dereferences the pointer with no nil
  check.
\<close>

record created =
  ResourceId :: "string option"

record NetworkInterfaceAttachment =
  AttachmentId :: "string option"

record NetworkInterface =
  Attachment :: "NetworkInterfaceAttachment option"
  NetworkInterfaceId :: "string option"

record RouteTableAssociation =
  Main :: "bool option"

record RouteTable =
  RouteTableId :: "string option"
  Associations :: "RouteTableAssociation list"

record SecurityGroup =
  GroupId :: "string option"
  GroupName :: "string option"

record Cluster =
  Tags :: "(string \<rightharpoonup> string) option"

text \<open>
  The environment answers a call as a function of the history before the call and of the
  call itself (any deterministic, stateful provider and operator is such a function).
  There is one field for each shape of output the program reads; \<open>Inl\<close> is a non-nil
  error:
  \<^item> \<open>gw_unit\<close> for loading the configuration and for the requests whose output the
    program drops (attach, associate, modify, delete, detach, create role, cluster, add-on);
  \<^item> \<open>gw_created\<close> for the \<open>Create*\<close> requests whose output holds a pointer to the
    created resource (\<open>output.Vpc\<close>, \<open>output.Subnet\<close>, \<open>igwOutput.InternetGateway\<close>,
    \<open>output.RouteTable\<close>), \<open>None\<close> being a nil pointer;
  \<^item> \<open>gw_id\<close> for \<open>CreateSecurityGroup\<close>, whose output holds the new identifier itself;
  \<^item> \<open>gw_identity\<close> for the account and ARN of the caller;
  \<^item> \<open>gw_ids\<close> for the identifiers of described networks, subnets and internet gateways
    and for the described cluster versions;
  \<^item> \<open>gw_names\<close> for the listed cluster names and for the answer to a \<open>MultiSelect\<close>;
  \<^item> \<open>gw_route_tables\<close>, \<open>gw_security_groups\<close>, \<open>gw_cluster\<close> and
    \<open>gw_network_interfaces\<close> for the described resources;
  \<^item> \<open>gw_string\<close> and \<open>gw_bool\<close> for the answers to \<open>Select\<close>, \<open>Input\<close> and \<open>Confirm\<close>.

  \<open>time_Now\<close> is the formatted current date, which cannot fail.
\<close>

record gateway =
  gw_unit :: "history \<Rightarrow> call \<Rightarrow> error + unit"
  gw_created :: "history \<Rightarrow> call \<Rightarrow> error + created option"
  gw_id :: "history \<Rightarrow> call \<Rightarrow> error + string option"
  gw_identity :: "history \<Rightarrow> call \<Rightarrow> error + string option \<times> string option"
  gw_ids :: "history \<Rightarrow> call \<Rightarrow> error + string option list"
  gw_names :: "history \<Rightarrow> call \<Rightarrow> error + string list"
  gw_route_tables :: "history \<Rightarrow> call \<Rightarrow> error + RouteTable list"
  gw_security_groups :: "history \<Rightarrow> call \<Rightarrow> error + SecurityGroup list"
  gw_cluster :: "history \<Rightarrow> call \<Rightarrow> error + Cluster option"
  gw_network_interfaces :: "history \<Rightarrow> call \<Rightarrow> error + NetworkInterface list"
  gw_string :: "history \<Rightarrow> call \<Rightarrow> error + string"
  gw_bool :: "history \<Rightarrow> call \<Rightarrow> error + bool"
  time_Now :: "history \<Rightarrow> string"

text \<open>
  An action maps the history before it to its result and the history after it.
  \<open>request\<close> issues one call and records it; \<open>seq m wrap k\<close> is the Go idiom
  \<open>x, err := m(); if err != nil { return wrap(err) }; k(x)\<close>; \<open>attempt m handler k\<close>
  is the same with an arbitrary error branch; \<open>discard m k\<close> is a call statement whose
  returned error is dropped, followed by \<open>k\<close>; \<open>unwrapped\<close> is \<open>return err\<close> with the error
  as it is.
\<close>

type_synonym 'a action = "history \<Rightarrow> 'a result \<times> history"

definition request :: "(history \<Rightarrow> call \<Rightarrow> error + 'a) \<Rightarrow> call \<Rightarrow> 'a action" where
  "request answer c h =
     (case answer h c of Inl e \<Rightarrow> (Err e, h @ [c]) | Inr v \<Rightarrow> (Ok v, h @ [c]))"

definition ret :: "'a \<Rightarrow> 'a action" where
  "ret x h = (Ok x, h)"

definition fail :: "error \<Rightarrow> 'a action" where
  "fail e h = (Err e, h)"

definition panic :: "'a action" where
  "panic h = (Panic, h)"

definition seq :: "'a action \<Rightarrow> (error \<Rightarrow> error) \<Rightarrow> ('a \<Rightarrow> 'b action) \<Rightarrow> 'b action" where
  "seq m wrap k h =
     (case m h of
        (Ok x, h') \<Rightarrow> k x h'
      | (Err e, h') \<Rightarrow> (Err (wrap e), h')
      | (Panic, h') \<Rightarrow> (Panic, h'))"

definition discard :: "'a action \<Rightarrow> 'b action \<Rightarrow> 'b action" where
  "discard m k h =
     (case m h of
        (Ok x, h') \<Rightarrow> k h'
      | (Err e, h') \<Rightarrow> k h'
      | (Panic, h') \<Rightarrow> (Panic, h'))"

definition attempt :: "'a action \<Rightarrow> (error \<Rightarrow> 'b action) \<Rightarrow> ('a \<Rightarrow> 'b action) \<Rightarrow> 'b action" where
  "attempt m handler k h =
     (case m h of
        (Ok x, h') \<Rightarrow> k x h'
      | (Err e, h') \<Rightarrow> handler e h'
      | (Panic, h') \<Rightarrow> (Panic, h'))"

text \<open>
  \<open>deref p k\<close> is the dereference \<open>*p\<close> of a pointer, which panics on nil.
\<close>

definition deref :: "'a option \<Rightarrow> ('a \<Rightarrow> 'b action) \<Rightarrow> 'b action" where
  "deref p k = (case p of None \<Rightarrow> panic | Some v \<Rightarrow> k v)"

definition unwrapped :: "error \<Rightarrow> error" where
  "unwrapped e = e"

section \<open>Identity and role (unnamed/part_001)\<close>

text \<open>
  The file unnamed/part_001 holds the AWS operations of the current revision; main.go
  calls them.
\<close>

definition GetAWSAccountDetails :: "gateway \<Rightarrow> string \<Rightarrow> (string \<times> string) action" where
  "GetAWSAccountDetails gw region =
     seq (request (gw_unit gw) (config_LoadDefaultConfig region))
         (Errorf ''unable to load AWS configuration: '') (\<lambda>cfg.
     seq (request (gw_identity gw) sts_GetCallerIdentity)
         (Errorf ''failed to get caller identity: '') (\<lambda>output.
     ret (aws_ToString (fst output), aws_ToString (snd output))))"

text \<open>
  The trust policy document is a raw string literal in the source; its line breaks and
  indentation are not reproduced here.
\<close>

definition assumeRolePolicy :: string where
  \<open>assumeRolePolicy =
     ''{"Version": "2012-10-17", "Statement": [{"Effect": "Allow", '' @
     ''"Principal": {"Service": "eks.amazonaws.com"}, "Action": "sts:AssumeRole"}]}''\<close>

definition policies :: "string list" where
  "policies =
     [''arn:aws:iam::aws:policy/AmazonEKSClusterPolicy'',
      ''arn:aws:iam::aws:policy/AmazonEKSVPCResourceController'']"

fun attachPolicies :: "gateway \<Rightarrow> string \<Rightarrow> string list \<Rightarrow> unit action" where
  "attachPolicies gw roleName [] = ret ()"
| "attachPolicies gw roleName (policyArn # rest) =
     seq (request (gw_unit gw) (iam_AttachRolePolicy roleName policyArn))
         (Errorf (''failed to attach policy '' @ policyArn @ '' to role '' @ roleName @ '': ''))
         (\<lambda>u. attachPolicies gw roleName rest)"

definition IamOperations :: "gateway \<Rightarrow> string \<Rightarrow> string \<Rightarrow> unit action" where
  "IamOperations gw region roleName =
     seq (request (gw_unit gw) (config_LoadDefaultConfig region))
         (Errorf ''unable to load AWS configuration: '') (\<lambda>cfg.
     attempt (request (gw_unit gw) (iam_CreateRole roleName assumeRolePolicy))
       (\<lambda>err. if \<not> errors_As_EntityAlreadyExists err
              then fail (Errorf (''failed to create role '' @ roleName @ '': '') err)
              else attachPolicies gw roleName policies)
       (\<lambda>u. attachPolicies gw roleName policies))"

section \<open>Creating the network and the cluster (unnamed/part_001)\<close>

definition createdBy :: "string \<Rightarrow> tags" where
  "createdBy name = [(''Name'', name), (''CreatedBy'', ''EKS-Sandbox-Tool'')]"

definition CreateVPC :: "gateway \<Rightarrow> string \<Rightarrow> string \<Rightarrow> string \<Rightarrow> string action" where
  "CreateVPC gw region cidr name =
     seq (request (gw_unit gw) (config_LoadDefaultConfig region)) unwrapped (\<lambda>cfg.
     seq (request (gw_created gw) (ec2_CreateVpc cidr (createdBy name))) unwrapped (\<lambda>output.
     deref output (\<lambda>Vpc.
     ret (aws_ToString (ResourceId Vpc)))))"

definition CreateSubnet ::
  "gateway \<Rightarrow> string \<Rightarrow> string \<Rightarrow> string \<Rightarrow> string \<Rightarrow> string \<Rightarrow> string action" where
  "CreateSubnet gw region vpcID cidr name azSuffix =
     seq (request (gw_unit gw) (config_LoadDefaultConfig region)) unwrapped (\<lambda>cfg.
     seq (request (gw_created gw) (ec2_CreateSubnet vpcID cidr (region @ azSuffix) (createdBy name)))
         unwrapped (\<lambda>output.
     deref output (\<lambda>Subnet.
     ret (aws_ToString (ResourceId Subnet)))))"

definition CreateInternetGateway :: "gateway \<Rightarrow> string \<Rightarrow> string \<Rightarrow> string \<Rightarrow> string action" where
  "CreateInternetGateway gw region name vpcID =
     seq (request (gw_unit gw) (config_LoadDefaultConfig region)) unwrapped (\<lambda>cfg.
     seq (request (gw_created gw) (ec2_CreateInternetGateway (createdBy name)))
         unwrapped (\<lambda>igwOutput.
     deref igwOutput (\<lambda>InternetGateway.
     seq (request (gw_unit gw)
            (ec2_AttachInternetGateway (aws_ToString (ResourceId InternetGateway)) vpcID))
         unwrapped (\<lambda>u.
     ret (aws_ToString (ResourceId InternetGateway))))))"

definition CreateRouteTable :: "gateway \<Rightarrow> string \<Rightarrow> string \<Rightarrow> string \<Rightarrow> string action" where
  "CreateRouteTable gw region vpcID name =
     seq (request (gw_unit gw) (config_LoadDefaultConfig region)) unwrapped (\<lambda>cfg.
     seq (request (gw_created gw) (ec2_CreateRouteTable vpcID (createdBy name)))
         unwrapped (\<lambda>output.
     deref output (\<lambda>RouteTable.
     ret (aws_ToString (ResourceId RouteTable)))))"

definition CreateRoute :: "gateway \<Rightarrow> string \<Rightarrow> string \<Rightarrow> string \<Rightarrow> string \<Rightarrow> unit action" where
  "CreateRoute gw region routeTableID cidr igwID =
     seq (request (gw_unit gw) (config_LoadDefaultConfig region)) unwrapped (\<lambda>cfg.
     seq (request (gw_unit gw) (ec2_CreateRoute routeTableID cidr igwID)) unwrapped (\<lambda>u.
     ret ()))"

definition AssociateRouteTable :: "gateway \<Rightarrow> string \<Rightarrow> string \<Rightarrow> string \<Rightarrow> unit action" where
  "AssociateRouteTable gw region routeTableID subnetID =
     seq (request (gw_unit gw) (config_LoadDefaultConfig region)) unwrapped (\<lambda>cfg.
     seq (request (gw_unit gw) (ec2_AssociateRouteTable routeTableID subnetID)) unwrapped (\<lambda>u.
     ret ()))"

definition CreateSecurityGroup ::
  "gateway \<Rightarrow> string \<Rightarrow> string \<Rightarrow> string \<Rightarrow> string \<Rightarrow> string action" where
  "CreateSecurityGroup gw region vpcID name description =
     seq (request (gw_unit gw) (config_LoadDefaultConfig region)) unwrapped (\<lambda>cfg.
     seq (request (gw_id gw) (ec2_CreateSecurityGroup name description vpcID (createdBy name)))
         unwrapped (\<lambda>GroupId.
     ret (aws_ToString GroupId)))"

definition clusterInput ::
  "string \<Rightarrow> string \<Rightarrow> string list \<Rightarrow> string list \<Rightarrow> string \<Rightarrow> string \<Rightarrow> bool \<Rightarrow> CreateClusterInput" where
  "clusterInput clusterName accountID subnetIDs securityGroupIDs k8sVersion vpcId autoMode =
     \<lparr> Name = clusterName,
       Version = k8sVersion,
       RoleArn = ''arn:aws:iam::'' @ accountID @ '':role/EKSClusterRole'',
       SubnetIds = subnetIDs,
       SecurityGroupIds = securityGroupIDs,
       AccessConfig = Some (''API_AND_CONFIG_MAP'', True),
       ClusterTags =
         [(''CreatedBy'', ''EKS-Sandbox-Tool''), (''HostingVPC'', ''isolated''), (''VpcId'', vpcId)],
       ComputeConfig_Enabled = (if autoMode then Some True else None),
       ElasticLoadBalancing_Enabled = (if autoMode then Some True else None),
       BlockStorage_Enabled = (if autoMode then Some True else None) \<rparr>"

definition CreateEKSCluster ::
  "gateway \<Rightarrow> string \<Rightarrow> string \<Rightarrow> string \<Rightarrow> string list \<Rightarrow> string list \<Rightarrow> string \<Rightarrow> string \<Rightarrow> bool
     \<Rightarrow> unit action" where
  "CreateEKSCluster gw region clusterName accountID subnetIDs securityGroupIDs k8sVersion vpcId autoMode =
     seq (request (gw_unit gw) (config_LoadDefaultConfig region)) unwrapped (\<lambda>cfg.
     seq (request (gw_unit gw)
            (eks_CreateCluster
               (clusterInput clusterName accountID subnetIDs securityGroupIDs k8sVersion vpcId autoMode)))
         (Errorf ''failed to create EKS cluster: '') (\<lambda>u.
     ret ()))"

fun EnableAutoAssignPublicIP_loop :: "gateway \<Rightarrow> string list \<Rightarrow> unit action" where
  "EnableAutoAssignPublicIP_loop gw [] = ret ()"
| "EnableAutoAssignPublicIP_loop gw (subnetID # rest) =
     seq (request (gw_unit gw) (ec2_ModifySubnetAttribute subnetID True))
         (Errorf (''unable to enable auto-assign public IPv4 for subnet '' @ subnetID @ '': ''))
         (\<lambda>u. EnableAutoAssignPublicIP_loop gw rest)"

definition EnableAutoAssignPublicIP :: "gateway \<Rightarrow> string \<Rightarrow> string list \<Rightarrow> unit action" where
  "EnableAutoAssignPublicIP gw region subnets =
     seq (request (gw_unit gw) (config_LoadDefaultConfig region))
         (Errorf ''unable to load AWS configuration: '') (\<lambda>cfg.
     EnableAutoAssignPublicIP_loop gw subnets)"

definition addons :: "string list" where
  "addons = [''coredns'', ''kube-proxy'', ''vpc-cni'']"

fun InstallAddons_loop :: "gateway \<Rightarrow> string \<Rightarrow> string list \<Rightarrow> unit action" where
  "InstallAddons_loop gw clusterName [] = ret ()"
| "InstallAddons_loop gw clusterName (addon # rest) =
     seq (request (gw_unit gw) (eks_CreateAddon clusterName addon))
         (Errorf (''failed to install addon '' @ addon @ '': ''))
         (\<lambda>u. InstallAddons_loop gw clusterName rest)"

definition InstallAddons :: "gateway \<Rightarrow> string \<Rightarrow> string \<Rightarrow> unit action" where
  "InstallAddons gw region clusterName =
     seq (request (gw_unit gw) (config_LoadDefaultConfig region))
         (Errorf ''unable to load AWS configuration: '') (\<lambda>cfg.
     InstallAddons_loop gw clusterName addons)"

section \<open>Listing resources (unnamed/part_001)\<close>

definition vpc_filter :: "string \<Rightarrow> selector" where
  "vpc_filter vpcID = Filter ''vpc-id'' [vpcID]"

definition ListVPCs :: "gateway \<Rightarrow> string \<Rightarrow> string list action" where
  "ListVPCs gw region =
     seq (request (gw_unit gw) (config_LoadDefaultConfig region)) unwrapped (\<lambda>cfg.
     seq (request (gw_ids gw) (ec2_DescribeVpcs Everything)) unwrapped (\<lambda>Vpcs.
     ret (map aws_ToString Vpcs)))"

definition ListSubnets :: "gateway \<Rightarrow> string \<Rightarrow> string \<Rightarrow> string list action" where
  "ListSubnets gw region vpcID =
     seq (request (gw_unit gw) (config_LoadDefaultConfig region)) unwrapped (\<lambda>cfg.
     seq (request (gw_ids gw) (ec2_DescribeSubnets (vpc_filter vpcID))) unwrapped (\<lambda>Subnets.
     ret (map aws_ToString Subnets)))"

definition ListInternetGateways :: "gateway \<Rightarrow> string \<Rightarrow> string \<Rightarrow> string list action" where
  "ListInternetGateways gw region vpcID =
     seq (request (gw_unit gw) (config_LoadDefaultConfig region)) unwrapped (\<lambda>cfg.
     seq (request (gw_ids gw) (ec2_DescribeInternetGateways (Filter ''attachment.vpc-id'' [vpcID])))
         unwrapped (\<lambda>InternetGateways.
     ret (map aws_ToString InternetGateways)))"

definition ListRouteTables :: "gateway \<Rightarrow> string \<Rightarrow> string \<Rightarrow> string list action" where
  "ListRouteTables gw region vpcID =
     seq (request (gw_unit gw) (config_LoadDefaultConfig region)) unwrapped (\<lambda>cfg.
     seq (request (gw_route_tables gw) (ec2_DescribeRouteTables (vpc_filter vpcID))) unwrapped (\<lambda>RouteTables.
     ret (map (\<lambda>rtb. aws_ToString (RouteTableId rtb)) RouteTables)))"

definition ListSecurityGroups :: "gateway \<Rightarrow> string \<Rightarrow> string \<Rightarrow> string list action" where
  "ListSecurityGroups gw region vpcID =
     seq (request (gw_unit gw) (config_LoadDefaultConfig region)) unwrapped (\<lambda>cfg.
     seq (request (gw_security_groups gw) (ec2_DescribeSecurityGroups (vpc_filter vpcID)))
         unwrapped (\<lambda>SecurityGroups.
     ret (map (\<lambda>sg. aws_ToString (GroupId sg)) SecurityGroups)))"

definition ListEKSClusters :: "gateway \<Rightarrow> string \<Rightarrow> string list action" where
  "ListEKSClusters gw region =
     seq (request (gw_unit gw) (config_LoadDefaultConfig region))
         (Errorf ''unable to load AWS configuration: '') (\<lambda>cfg.
     seq (request (gw_names gw) eks_ListClusters)
         (Errorf ''failed to list EKS clusters: '') (\<lambda>Clusters.
     ret Clusters))"

text \<open>
  \<open>GetLatestEKSVersion\<close> keeps the non-nil \<open>ClusterVersion\<close> fields of the answer and
  hands them to \<open>getLatestVersion\<close>.
\<close>

definition GetLatestEKSVersion :: "gateway \<Rightarrow> string \<Rightarrow> string action" where
  "GetLatestEKSVersion gw region =
     seq (request (gw_unit gw) (config_LoadDefaultConfig region))
         (Errorf ''unable to load AWS configuration: '') (\<lambda>cfg.
     seq (request (gw_ids gw) (eks_DescribeClusterVersions True))
         (Errorf ''failed to fetch EKS cluster versions: '') (\<lambda>ClusterVersions.
     if length ClusterVersions = 0
     then fail (ErrorString ''no available EKS versions found'')
     else let versions = concat (map (\<lambda>v. case v of None \<Rightarrow> [] | Some s \<Rightarrow> [s]) ClusterVersions)
          in if length versions = 0
             then fail (ErrorString ''no valid EKS versions found in the response'')
             else (\<lambda>h. (getLatestVersion versions, h))))"

section \<open>The Tag Guard (unnamed/part_001)\<close>

text \<open>
  \<open>CheckClusterTag\<close> reads \<open>output.Cluster.Tags\<close> without a nil check on
  \<open>output.Cluster\<close>; \<open>GetVPCIDFromCluster\<close> checks both.
\<close>

definition CheckClusterTag ::
  "gateway \<Rightarrow> string \<Rightarrow> string \<Rightarrow> string \<Rightarrow> string \<Rightarrow> bool action" where
  "CheckClusterTag gw region clusterName tagName tagValue =
     seq (request (gw_unit gw) (config_LoadDefaultConfig region))
         (Errorf ''unable to load AWS configuration: '') (\<lambda>cfg.
     seq (request (gw_cluster gw) (eks_DescribeCluster clusterName))
         (Errorf ''failed to describe EKS cluster: '') (\<lambda>output.
     case output of
       None \<Rightarrow> panic
     | Some cluster \<Rightarrow>
         (case Tags cluster of
            None \<Rightarrow> ret False
          | Some tags \<Rightarrow>
              (case tags tagName of
                 Some val \<Rightarrow> if val = tagValue then ret True else ret False
               | None \<Rightarrow> ret False))))"

definition GetVPCIDFromCluster :: "gateway \<Rightarrow> string \<Rightarrow> string \<Rightarrow> string action" where
  "GetVPCIDFromCluster gw region clusterName =
     seq (request (gw_unit gw) (config_LoadDefaultConfig region))
         (Errorf ''unable to load AWS configuration: '') (\<lambda>cfg.
     seq (request (gw_cluster gw) (eks_DescribeCluster clusterName))
         (Errorf (''failed to describe EKS cluster '' @ clusterName @ '': '')) (\<lambda>clusterOutput.
     case clusterOutput of
       None \<Rightarrow>
         fail (ErrorString (''cluster '' @ clusterName @ '' does not have tags or is malformed''))
     | Some cluster \<Rightarrow>
         (case Tags cluster of
            None \<Rightarrow>
              fail (ErrorString (''cluster '' @ clusterName @ '' does not have tags or is malformed''))
          | Some tags \<Rightarrow>
              (case tags ''VpcId'' of
                 None \<Rightarrow> fail (ErrorString (''vpc-id tag not found on cluster '' @ clusterName))
               | Some vpcID \<Rightarrow> ret vpcID))))"

section \<open>Deleting the cluster and the network (unnamed/part_001)\<close>

definition DeleteEKSCluster :: "gateway \<Rightarrow> string \<Rightarrow> string \<Rightarrow> unit action" where
  "DeleteEKSCluster gw region clusterName =
     seq (request (gw_unit gw) (config_LoadDefaultConfig region))
         (Errorf ''unable to load AWS configuration: '') (\<lambda>cfg.
     seq (request (gw_unit gw) (eks_DeleteCluster clusterName))
         (Errorf ''failed to delete EKS cluster: '') (\<lambda>u.
     ret ()))"

text \<open>
  The five loops of \<open>DeleteVPC\<close>, one function each. The interface loop reads
  \<open>eni.Attachment.AttachmentId\<close> with no nil check on \<open>eni.Attachment\<close>, and
  dereferences \<open>eni.NetworkInterfaceId\<close> when it formats an error.
\<close>

fun DeleteVPC_interfaces :: "gateway \<Rightarrow> NetworkInterface list \<Rightarrow> unit action" where
  "DeleteVPC_interfaces gw [] = ret ()"
| "DeleteVPC_interfaces gw (eni # rest) =
     deref (Attachment eni) (\<lambda>attachment.
     attempt (request (gw_unit gw) (ec2_DetachNetworkInterface (AttachmentId attachment) True))
       (\<lambda>err. deref (NetworkInterfaceId eni) (\<lambda>eniId.
          fail (Errorf (''unable to detach network interface '' @ eniId @ '': '') err)))
       (\<lambda>u.
     attempt (request (gw_unit gw) (ec2_DeleteNetworkInterface (NetworkInterfaceId eni)))
       (\<lambda>err. deref (NetworkInterfaceId eni) (\<lambda>eniId.
          fail (Errorf (''unable to delete network interface '' @ eniId @ '': '') err)))
       (\<lambda>u. DeleteVPC_interfaces gw rest)))"

fun DeleteVPC_gateways :: "gateway \<Rightarrow> string \<Rightarrow> string list \<Rightarrow> unit action" where
  "DeleteVPC_gateways gw vpcID [] = ret ()"
| "DeleteVPC_gateways gw vpcID (igwID # rest) =
     seq (request (gw_unit gw) (ec2_DetachInternetGateway igwID vpcID))
         (Errorf (''unable to detach Internet Gateway '' @ igwID @ '': '')) (\<lambda>u.
     seq (request (gw_unit gw) (ec2_DeleteInternetGateway igwID))
         (Errorf (''unable to delete Internet Gateway '' @ igwID @ '': ''))
         (\<lambda>u. DeleteVPC_gateways gw vpcID rest))"

fun DeleteVPC_subnets :: "gateway \<Rightarrow> string list \<Rightarrow> unit action" where
  "DeleteVPC_subnets gw [] = ret ()"
| "DeleteVPC_subnets gw (subnetID # rest) =
     seq (request (gw_unit gw) (ec2_DeleteSubnet subnetID))
         (Errorf (''unable to delete subnet '' @ subnetID @ '': ''))
         (\<lambda>u. DeleteVPC_subnets gw rest)"

text \<open>
  \<open>isMainRouteTable\<close> is set when some association has a non-nil, true \<open>Main\<close>.
  \<open>rtbOutput.RouteTables[0]\<close> is read without a length check.
\<close>

definition isMainRouteTable :: "RouteTable \<Rightarrow> bool" where
  "isMainRouteTable rtb = list_ex (\<lambda>association. Main association = Some True) (Associations rtb)"

fun DeleteVPC_routeTables :: "gateway \<Rightarrow> string list \<Rightarrow> unit action" where
  "DeleteVPC_routeTables gw [] = ret ()"
| "DeleteVPC_routeTables gw (rtbID # rest) =
     seq (request (gw_route_tables gw) (ec2_DescribeRouteTables (Ids [rtbID])))
         (Errorf (''unable to describe route table '' @ rtbID @ '': '')) (\<lambda>RouteTables.
     case RouteTables of
       [] \<Rightarrow> panic
     | rtb # others \<Rightarrow>
         if isMainRouteTable rtb
         then (DeleteVPC_routeTables gw rest)
         else seq (request (gw_unit gw) (ec2_DeleteRouteTable rtbID))
                  (Errorf (''unable to delete route table '' @ rtbID @ '': ''))
                  (\<lambda>u. DeleteVPC_routeTables gw rest))"

text \<open>
  \<open>isDefault\<close> is \<open>len(sgOutput.SecurityGroups) > 0 && *GroupName == "default"\<close>: an empty
  answer is not the default group, a nil \<open>GroupName\<close> panics.
\<close>

definition isDefault :: "SecurityGroup list \<Rightarrow> bool action" where
  "isDefault SecurityGroups =
     (case SecurityGroups of
        [] \<Rightarrow> ret False
      | sg # others \<Rightarrow> deref (GroupName sg) (\<lambda>name. ret (name = ''default'')))"

fun DeleteVPC_securityGroups :: "gateway \<Rightarrow> string list \<Rightarrow> unit action" where
  "DeleteVPC_securityGroups gw [] = ret ()"
| "DeleteVPC_securityGroups gw (sgID # rest) =
     seq (request (gw_security_groups gw) (ec2_DescribeSecurityGroups (Ids [sgID])))
         (Errorf (''unable to describe security group '' @ sgID @ '': '')) (\<lambda>SecurityGroups.
     seq (isDefault SecurityGroups) unwrapped (\<lambda>isDefault.
        if isDefault
        then (DeleteVPC_securityGroups gw rest)
        else seq (request (gw_unit gw) (ec2_DeleteSecurityGroup sgID))
                 (Errorf (''unable to delete security group '' @ sgID @ '': ''))
                 (\<lambda>u. DeleteVPC_securityGroups gw rest)))"

text \<open>Lines 652 to 779 of unnamed/part_001: what \<open>DeleteVPC\<close> does after the interface loop.\<close>

definition DeleteVPC_network :: "gateway \<Rightarrow> string \<Rightarrow> string \<Rightarrow> unit action" where
  "DeleteVPC_network gw region vpcID =
     seq (request (gw_ids gw) (ec2_DescribeVpcs (Ids [vpcID])))
         (Errorf ''unable to describe VPC: '') (\<lambda>Vpcs.
     seq (ListInternetGateways gw region vpcID)
         (Errorf ''unable to list Internet Gateways: '') (\<lambda>igws.
     seq (DeleteVPC_gateways gw vpcID igws) unwrapped (\<lambda>u.
     seq (ListSubnets gw region vpcID)
         (Errorf ''unable to list subnets: '') (\<lambda>subnets.
     seq (DeleteVPC_subnets gw subnets) unwrapped (\<lambda>u.
     seq (ListRouteTables gw region vpcID)
         (Errorf ''unable to list route tables: '') (\<lambda>routeTables.
     seq (DeleteVPC_routeTables gw routeTables) unwrapped (\<lambda>u.
     seq (ListSecurityGroups gw region vpcID)
         (Errorf ''unable to list security groups: '') (\<lambda>securityGroups.
     seq (DeleteVPC_securityGroups gw securityGroups) unwrapped (\<lambda>u.
     seq (request (gw_unit gw) (ec2_DeleteVpc vpcID))
         (Errorf (''unable to delete VPC '' @ vpcID @ '': '')) (\<lambda>u.
     ret ()))))))))))"

text \<open>Lines 613 to 650 of unnamed/part_001, followed by the block above.\<close>

definition DeleteVPC :: "gateway \<Rightarrow> string \<Rightarrow> string \<Rightarrow> unit action" where
  "DeleteVPC gw region vpcID =
     seq (request (gw_unit gw) (config_LoadDefaultConfig region))
         (Errorf ''unable to load AWS configuration: '') (\<lambda>cfg.
     seq (request (gw_network_interfaces gw) (ec2_DescribeNetworkInterfaces (vpc_filter vpcID)))
         (Errorf ''unable to describe network interfaces: '') (\<lambda>NetworkInterfaces.
     seq (DeleteVPC_interfaces gw NetworkInterfaces) unwrapped (\<lambda>u.
     DeleteVPC_network gw region vpcID)))"

section \<open>The command line tool (main.go)\<close>

text \<open>
  \<open>survey.AskOne\<close> stores the operator's answer or returns an error. \<open>log.Fatalf\<close>
  ends the process with the formatted message: it is the \<open>Err\<close> result of \<open>main\<close>.
  Output printed with \<open>fmt\<close> is not modelled.
\<close>

definition ask_string :: "gateway \<Rightarrow> prompt \<Rightarrow> string action" where
  "ask_string gw p = request (gw_string gw) (survey_AskOne p)"

definition ask_bool :: "gateway \<Rightarrow> prompt \<Rightarrow> bool action" where
  "ask_bool gw p = request (gw_bool gw) (survey_AskOne p)"

definition ask_strings :: "gateway \<Rightarrow> prompt \<Rightarrow> string list action" where
  "ask_strings gw p = request (gw_names gw) (survey_AskOne p)"

definition action_prompt :: prompt where
  "action_prompt =
     Select ''What action do you want to perform?'' [''Create Cluster'', ''Delete Cluster'']"

definition delete_region_prompt :: prompt where
  "delete_region_prompt = Input ''Enter the AWS region (default: eu-west-2):'' ''eu-west-2'' False"

definition select_cluster_prompt :: "string list \<Rightarrow> prompt" where
  "select_cluster_prompt clusters = Select ''Select the cluster to delete:'' clusters"

definition danger_prompt :: prompt where
  "danger_prompt =
     Confirm (''This cluster does not appear to be created by this tool. '' @
              ''Are you sure you want to delete it? Danger!!'') False"

text \<open>Lines 79 to 153 of main.go: the new network, the cluster and the add-ons.\<close>

definition main_create_resources ::
  "gateway \<Rightarrow> string \<Rightarrow> string \<Rightarrow> string \<Rightarrow> bool \<Rightarrow> string \<Rightarrow> unit action" where
  "main_create_resources gw region clusterName k8sVersion autoMode accountID h0 =
    (let currentDate = time_Now gw h0;
         vpcName = ''Sandbox-EKS-VPC-'' @ currentDate
     in
     seq (CreateVPC gw region ''10.0.0.0/16'' vpcName)
         (Errorf ''Error creating VPC: '') (\<lambda>vpcID.
     seq (CreateSubnet gw region vpcID ''10.0.1.0/24'' ''EKS-Subnet-1'' ''a'')
         (Errorf ''Error creating Subnet 1: '') (\<lambda>subnet1.
     seq (CreateSubnet gw region vpcID ''10.0.2.0/24'' ''EKS-Subnet-2'' ''b'')
         (Errorf ''Error creating Subnet 2: '') (\<lambda>subnet2.
     seq (EnableAutoAssignPublicIP gw region [subnet1, subnet2])
         (Errorf ''Error enabling auto-assign public IPv4: '') (\<lambda>u.
     seq (CreateInternetGateway gw region ''EKS-IGW'' vpcID)
         (Errorf ''Error creating Internet Gateway: '') (\<lambda>igwID.
     seq (CreateRouteTable gw region vpcID ''EKS-Route-Table'')
         (Errorf ''Error creating Route Table: '') (\<lambda>routeTableID.
     discard (CreateRoute gw region routeTableID ''0.0.0.0/0'' igwID) (
     discard (AssociateRouteTable gw region routeTableID subnet1) (
     discard (AssociateRouteTable gw region routeTableID subnet2) (
     seq (CreateSecurityGroup gw region vpcID ''EKS-SG'' ''EKS Security Group'')
         (Errorf ''Error creating Security Group: '') (\<lambda>sgID.
     seq (CreateEKSCluster gw region clusterName accountID [subnet1, subnet2] [sgID]
            k8sVersion vpcID autoMode)
         (Errorf ''Error creating EKS Cluster: '') (\<lambda>u.
     seq (ask_bool gw
            (Confirm ''Do you want to install CoreDNS, Kubeproxy, VPC_CNI  addons ? Default: Yes'' False))
         (Errorf ''Error: '') (\<lambda>createAddons.
     if createAddons
     then seq (InstallAddons gw region clusterName)
              (Errorf ''Error installing addons: '') (\<lambda>u. ret ())
     else ret ())))))))))))) h0)"

text \<open>Lines 26 to 77 of main.go, followed by the block above.\<close>

definition main_create :: "gateway \<Rightarrow> unit action" where
  "main_create gw =
     seq (ask_string gw (Input ''Enter the AWS region default:'' ''eu-west-2'' False))
         (Errorf ''Error: '') (\<lambda>region.
     seq (ask_string gw (Input ''Enter the name of the EKS cluster:'' [] True))
         (Errorf ''Error: '') (\<lambda>name.
     seq (GetLatestEKSVersion gw region)
         (Errorf ''Error fetching latest EKS version: '') (\<lambda>latestVersion.
     seq (ask_string gw (Input ''Enter the Kubernetes version default:'' latestVersion False))
         (Errorf ''Error: '') (\<lambda>k8sVersion.
     seq (ask_bool gw
            (Confirm ''Do you want to enable auto mode for the cluster? Default: Yes'' False))
         (Errorf ''Error: '') (\<lambda>autoMode.
     seq (GetAWSAccountDetails gw region)
         (Errorf ''Error fetching AWS Account ID: '') (\<lambda>details.
     seq (IamOperations gw region ''EKSClusterRole'')
         (Errorf ''Error creating or attaching policies to EKSClusterRole: '') (\<lambda>u.
     main_create_resources gw region (''Sandbox-'' @ name) k8sVersion autoMode (fst details))))))))"

text \<open>
  Lines 206 to 250 of main.go: what happens once the danger confirmation gate is passed.
  Both calls of \<open>DeleteEKSCluster\<close> are inside the \<open>if isIsolatedVpc\<close> block.
\<close>

definition main_delete_confirmed :: "gateway \<Rightarrow> string \<Rightarrow> string \<Rightarrow> unit action" where
  "main_delete_confirmed gw region selectedCluster =
     seq (CheckClusterTag gw region selectedCluster ''HostingVPC'' ''isolated'')
         (Errorf ''Error checking cluster tags: '') (\<lambda>isIsolatedVpc.
     if isIsolatedVpc
     then
       seq (GetVPCIDFromCluster gw region selectedCluster)
           (Errorf ''Error getting VpcId from cluster tags: '') (\<lambda>vpcId.
       seq (ask_bool gw
              (Confirm ''Do you want to delte VPC and all dependent objects in it? Default: Yes'' True))
           (Errorf ''Error: '') (\<lambda>confirmDeleteVPC.
       if confirmDeleteVPC
       then
         seq (DeleteEKSCluster gw region selectedCluster)
             (Errorf ''Error deleting cluster: '') (\<lambda>u.
         seq (DeleteVPC gw region vpcId)
             (Errorf ''Error deleting VPC: '') (\<lambda>u.
         ret ()))
       else
         seq (DeleteEKSCluster gw region selectedCluster)
             (Errorf ''Error deleting cluster: '') (\<lambda>u.
         ret ())))
     else ret ())"

text \<open>Lines 186 to 205 of main.go: the provenance check and the danger confirmation gate.\<close>

definition main_delete_selected :: "gateway \<Rightarrow> string \<Rightarrow> string \<Rightarrow> unit action" where
  "main_delete_selected gw region selectedCluster =
     seq (CheckClusterTag gw region selectedCluster ''CreatedBy'' ''EKS-Sandbox-Tool'')
         (Errorf ''Error checking cluster tags: '') (\<lambda>isCreatedByTool.
     if \<not> isCreatedByTool
     then
       seq (ask_bool gw danger_prompt) (Errorf ''Error: '') (\<lambda>confirmDelete.
       if \<not> confirmDelete
       then ret ()
       else main_delete_confirmed gw region selectedCluster)
     else main_delete_confirmed gw region selectedCluster)"

text \<open>Lines 156 to 184 of main.go, followed by the blocks above.\<close>

definition main_delete :: "gateway \<Rightarrow> unit action" where
  "main_delete gw =
     seq (ask_string gw delete_region_prompt) (Errorf ''Error: '') (\<lambda>region.
     seq (ListEKSClusters gw region)
         (Errorf ''Error fetching clusters: '') (\<lambda>clusters.
     if length clusters = 0
     then ret ()
     else
       seq (ask_string gw (select_cluster_prompt clusters)) (Errorf ''Error: '') (\<lambda>selectedCluster.
       main_delete_selected gw region selectedCluster)))"

definition main :: "gateway \<Rightarrow> unit action" where
  "main gw =
     seq (ask_string gw action_prompt) (Errorf ''Error: '') (\<lambda>action.
     if action = ''Create Cluster'' then main_create gw
     else if action = ''Delete Cluster'' then main_delete gw
     else ret ())"

section \<open>The earlier revisions of the tool with the reuse option\<close>

text \<open>
  Two earlier revisions of \<open>main\<close> (unnamed/part_000 and unnamed/part_002) offer to reuse an
  existing network. Their helper functions \<open>selectExistingResource\<close>,
  \<open>selectMultipleSubnets\<close> and \<open>selectMultipleSecurityGroups\<close> and the reuse block are the
  same text in both files. The AWS operations they call are the ones above (the earlier
  revision aws2.js has them unchanged), except \<open>CreateEKSCluster\<close>:
  \<^item> part_000 calls it with seven arguments, as aws2.js defines it
    (\<open>CreateEKSCluster_aws2\<close> below);
  \<^item> part_002 calls it with the arguments \<open>..., k8sVersion, useExistingResources, vpcID\<close>,
    which no revision of the AWS operations in the repository has. That function is the parameter
    \<open>createCluster\<close> of the model of part_002.
\<close>

definition selectExistingResource :: "gateway \<Rightarrow> string \<Rightarrow> string list action \<Rightarrow> string action" where
  "selectExistingResource gw name fetchFunc =
     seq fetchFunc (Errorf (''Error fetching '' @ name @ '': '')) (\<lambda>options.
     seq (ask_string gw (Select (''Select an existing '' @ name @ '':'') options))
         (Errorf (''Error selecting '' @ name @ '': '')) (\<lambda>selected.
     ret selected))"

definition selectMultipleSubnets :: "gateway \<Rightarrow> string \<Rightarrow> string \<Rightarrow> string list action" where
  "selectMultipleSubnets gw region vpcID =
     seq (ListSubnets gw region vpcID) unwrapped (\<lambda>subnets.
     seq (ask_strings gw (MultiSelect ''Select subnets to use:'' subnets)) unwrapped (\<lambda>selectedSubnets.
     ret selectedSubnets))"

definition selectMultipleSecurityGroups :: "gateway \<Rightarrow> string \<Rightarrow> string \<Rightarrow> string list action" where
  "selectMultipleSecurityGroups gw region vpcID =
     seq (ListSecurityGroups gw region vpcID) unwrapped (\<lambda>sgs.
     seq (ask_strings gw (MultiSelect ''Select security groups to use:'' sgs)) unwrapped (\<lambda>selectedSGs.
     ret selectedSGs))"

text \<open>
  Lines 85 to 108 of part_002 and lines 74 to 98 of part_000: the network, subnets and
  security groups chosen by the operator.
\<close>

definition reuse_existing_resources :: "gateway \<Rightarrow> string \<Rightarrow> (string \<times> string list \<times> string list) action" where
  "reuse_existing_resources gw region =
     seq (selectExistingResource gw ''VPC'' (ListVPCs gw region)) unwrapped (\<lambda>vpcID.
     seq (selectMultipleSubnets gw region vpcID)
         (Errorf ''Error selecting subnets: '') (\<lambda>selectedSubnets.
     if length selectedSubnets < 2
     then fail (ErrorString ''At least two subnets are required for EKS.'')
     else
       seq (selectMultipleSecurityGroups gw region vpcID)
           (Errorf ''Error selecting security groups: '') (\<lambda>selectedSecurityGroups.
       ret (vpcID, selectedSubnets, selectedSecurityGroups))))"

text \<open>Lines 110 to 158 of part_002: the newly created network.\<close>

definition part_002_new :: "gateway \<Rightarrow> string \<Rightarrow> (string \<times> string list \<times> string list) action" where
  "part_002_new gw region h0 =
    (let currentDate = time_Now gw h0;
         vpcName = ''Sandbox-EKS-VPC-'' @ currentDate
     in
     seq (CreateVPC gw region ''10.0.0.0/16'' vpcName)
         (Errorf ''Error creating VPC: '') (\<lambda>vpcID.
     seq (CreateSubnet gw region vpcID ''10.0.1.0/24'' ''EKS-Subnet-1'' ''a'')
         (Errorf ''Error creating Subnet 1: '') (\<lambda>subnet1.
     seq (CreateSubnet gw region vpcID ''10.0.2.0/24'' ''EKS-Subnet-2'' ''b'')
         (Errorf ''Error creating Subnet 2: '') (\<lambda>subnet2.
     seq (EnableAutoAssignPublicIP gw region [subnet1, subnet2])
         (Errorf ''Error enabling auto-assign public IPv4: '') (\<lambda>u.
     seq (CreateInternetGateway gw region ''EKS-IGW'' vpcID)
         (Errorf ''Error creating Internet Gateway: '') (\<lambda>igwID.
     seq (CreateRouteTable gw region vpcID ''EKS-Route-Table'')
         (Errorf ''Error creating Route Table: '') (\<lambda>routeTableID.
     discard (CreateRoute gw region routeTableID ''0.0.0.0/0'' igwID) (
     discard (AssociateRouteTable gw region routeTableID subnet1) (
     discard (AssociateRouteTable gw region routeTableID subnet2) (
     seq (CreateSecurityGroup gw region vpcID ''EKS-SG'' ''EKS Security Group'')
         (Errorf ''Error creating Security Group: '') (\<lambda>sgID.
     ret (vpcID, [subnet1, subnet2], [sgID]))))))))))) h0)"

type_synonym createCluster_part_002 =
  "gateway \<Rightarrow> string \<Rightarrow> string \<Rightarrow> string \<Rightarrow> string list \<Rightarrow> string list \<Rightarrow> string \<Rightarrow> bool \<Rightarrow> string
     \<Rightarrow> unit action"

text \<open>Lines 80 to 165 of part_002: resource handling and the cluster.\<close>

definition part_002_resources ::
  "createCluster_part_002 \<Rightarrow> gateway \<Rightarrow> string \<Rightarrow> string \<Rightarrow> string \<Rightarrow> string \<Rightarrow> bool \<Rightarrow> unit action" where
  "part_002_resources createCluster gw region clusterName k8sVersion accountID useExistingResources =
     seq (if useExistingResources then reuse_existing_resources gw region else part_002_new gw region)
         unwrapped (\<lambda>resources.
     seq (createCluster gw region clusterName accountID (fst (snd resources)) (snd (snd resources))
            k8sVersion useExistingResources (fst resources))
         (Errorf ''Error creating EKS Cluster: '') (\<lambda>u.
     ret ()))"

text \<open>
  Lines 27 to 78 of part_002: the prompts, the account identity and the role. The block
  yields the local variables the rest of the creation branch uses.
\<close>

record create_locals =
  var_region :: string
  var_clusterName :: string
  var_k8sVersion :: string
  var_accountID :: string
  var_useExistingResources :: bool

definition part_002_prologue :: "gateway \<Rightarrow> create_locals action" where
  "part_002_prologue gw =
     seq (ask_string gw (Input ''Enter the AWS region default:'' ''eu-west-2'' False))
         (Errorf ''Error: '') (\<lambda>region.
     seq (ask_string gw (Input ''Enter the name of the EKS cluster:'' [] True))
         (Errorf ''Error: '') (\<lambda>name.
     seq (GetLatestEKSVersion gw region)
         (Errorf ''Error fetching latest EKS version: '') (\<lambda>latestVersion.
     seq (ask_string gw (Input ''Enter the Kubernetes version default:'' latestVersion False))
         (Errorf ''Error: '') (\<lambda>k8sVersion.
     seq (ask_bool gw
            (Confirm (''Do you want to create a cluster in existing VPC and subnets etc..? '' @
                      ''(Recommended No)'') False))
         (Errorf ''Error: '') (\<lambda>useExistingResources.
     seq (GetAWSAccountDetails gw region)
         (Errorf ''Error fetching AWS Account ID: '') (\<lambda>details.
     seq (IamOperations gw region ''EKSClusterRole'')
         (Errorf ''Error creating or attaching policies to EKSClusterRole: '') (\<lambda>u.
     ret \<lparr> var_region = region, var_clusterName = ''Sandbox-'' @ name,
           var_k8sVersion = k8sVersion, var_accountID = fst details,
           var_useExistingResources = useExistingResources \<rparr>)))))))"

definition part_002_create :: "createCluster_part_002 \<Rightarrow> gateway \<Rightarrow> unit action" where
  "part_002_create createCluster gw =
     seq (part_002_prologue gw) unwrapped (\<lambda>locals.
     part_002_resources createCluster gw (var_region locals) (var_clusterName locals)
       (var_k8sVersion locals) (var_accountID locals) (var_useExistingResources locals))"

text \<open>
  Lines 167 to 254 of part_002: teardown in this revision. \<open>DeleteEKSCluster\<close> follows the
  \<open>if isIsolatedVpc\<close> block instead of being inside it.
\<close>

definition part_002_delete_confirmed :: "gateway \<Rightarrow> string \<Rightarrow> string \<Rightarrow> unit action" where
  "part_002_delete_confirmed gw region selectedCluster =
     seq (CheckClusterTag gw region selectedCluster ''HostingVPC'' ''isolated'')
         (Errorf ''Error checking cluster tags: '') (\<lambda>isIsolatedVpc.
     seq (if isIsolatedVpc
          then
            seq (GetVPCIDFromCluster gw region selectedCluster)
                (Errorf ''Error getting VpcId from cluster tags: '') (\<lambda>vpcId.
            seq (ask_bool gw
                   (Confirm (''This cluster seems to be using isolated VPC . '' @
                             ''Do you want to delte VPC and all dependent objects in it?'') False))
                (Errorf ''Error: '') (\<lambda>confirmDeleteVPC.
            if confirmDeleteVPC
            then seq (DeleteVPC gw region vpcId) (Errorf ''Error deleting VPC: '') (\<lambda>u. ret ())
            else ret ()))
          else ret ())
         unwrapped (\<lambda>u.
     seq (DeleteEKSCluster gw region selectedCluster)
         (Errorf ''Error deleting cluster: '') (\<lambda>u.
     ret ())))"

definition part_002_delete :: "gateway \<Rightarrow> unit action" where
  "part_002_delete gw =
     seq (ask_string gw delete_region_prompt) (Errorf ''Error: '') (\<lambda>region.
     seq (ListEKSClusters gw region)
         (Errorf ''Error fetching clusters: '') (\<lambda>clusters.
     if length clusters = 0
     then ret ()
     else
       seq (ask_string gw (select_cluster_prompt clusters)) (Errorf ''Error: '') (\<lambda>selectedCluster.
       seq (CheckClusterTag gw region selectedCluster ''CreatedBy'' ''EKS-Sandbox-Tool'')
           (Errorf ''Error checking cluster tags: '') (\<lambda>isCreatedByTool.
       if \<not> isCreatedByTool
       then
         seq (ask_bool gw danger_prompt) (Errorf ''Error: '') (\<lambda>confirmDelete.
         if \<not> confirmDelete
         then ret ()
         else part_002_delete_confirmed gw region selectedCluster)
       else part_002_delete_confirmed gw region selectedCluster))))"

definition main_part_002 :: "createCluster_part_002 \<Rightarrow> gateway \<Rightarrow> unit action" where
  "main_part_002 createCluster gw =
     seq (ask_string gw action_prompt) (Errorf ''Error: '') (\<lambda>action.
     if action = ''Create Cluster'' then part_002_create createCluster gw
     else if action = ''Delete Cluster'' then part_002_delete gw
     else ret ())"

text \<open>The revision unnamed/part_000: no action prompt and no teardown.\<close>

definition CreateEKSCluster_aws2 ::
  "gateway \<Rightarrow> string \<Rightarrow> string \<Rightarrow> string \<Rightarrow> string list \<Rightarrow> string list \<Rightarrow> string \<Rightarrow> unit action" where
  "CreateEKSCluster_aws2 gw region clusterName accountID subnetIDs securityGroupIDs k8sVersion =
     seq (request (gw_unit gw) (config_LoadDefaultConfig region)) unwrapped (\<lambda>cfg.
     seq (request (gw_unit gw)
            (eks_CreateCluster
               \<lparr> Name = clusterName,
                 Version = k8sVersion,
                 RoleArn = ''arn:aws:iam::'' @ accountID @ '':role/EKSClusterRole'',
                 SubnetIds = subnetIDs,
                 SecurityGroupIds = securityGroupIDs,
                 AccessConfig = None,
                 ClusterTags = [(''CreatedBy'', ''EKS-Sandbox-Tool'')],
                 ComputeConfig_Enabled = None,
                 ElasticLoadBalancing_Enabled = None,
                 BlockStorage_Enabled = None \<rparr>))
         (Errorf ''failed to create EKS cluster: '') (\<lambda>u.
     ret ()))"

text \<open>Lines 100 to 137 of part_000: the newly created network.\<close>

definition part_000_new :: "gateway \<Rightarrow> string \<Rightarrow> (string \<times> string list \<times> string list) action" where
  "part_000_new gw region h0 =
    (let currentDate = time_Now gw h0;
         vpcName = ''Sandbox-EKS-VPC-'' @ currentDate
     in
     seq (CreateVPC gw region ''10.0.0.0/16'' vpcName)
         (Errorf ''Error creating VPC: '') (\<lambda>vpcID.
     seq (CreateSubnet gw region vpcID ''10.0.1.0/24'' ''EKS-Subnet-1'' ''a'')
         (Errorf ''Error creating Subnet 1: '') (\<lambda>subnet1.
     seq (CreateSubnet gw region vpcID ''10.0.2.0/24'' ''EKS-Subnet-2'' ''b'')
         (Errorf ''Error creating Subnet 2: '') (\<lambda>subnet2.
     seq (CreateInternetGateway gw region ''EKS-IGW'' vpcID)
         (Errorf ''Error creating Internet Gateway: '') (\<lambda>igwID.
     seq (CreateRouteTable gw region vpcID ''EKS-Route-Table'')
         (Errorf ''Error creating Route Table: '') (\<lambda>routeTableID.
     seq (CreateSecurityGroup gw region vpcID ''EKS-SG'' ''EKS Security Group'')
         (Errorf ''Error creating Security Group: '') (\<lambda>sgID.
     ret (vpcID, [subnet1, subnet2], [sgID]))))))) h0)"

text \<open>Lines 16 to 67 of part_000: the prompts, the account identity and the role.\<close>

definition part_000_prologue :: "gateway \<Rightarrow> create_locals action" where
  "part_000_prologue gw =
     seq (ask_string gw (Input ''Enter the AWS region default:'' ''eu-west-2'' False))
         (Errorf ''Error: '') (\<lambda>region.
     seq (ask_string gw (Input ''Enter the name of the EKS cluster:'' [] True))
         (Errorf ''Error: '') (\<lambda>name.
     seq (GetLatestEKSVersion gw region)
         (Errorf ''Error fetching latest EKS version: '') (\<lambda>latestVersion.
     seq (ask_string gw (Input ''Enter the Kubernetes version default:'' latestVersion False))
         (Errorf ''Error: '') (\<lambda>k8sVersion.
     seq (ask_bool gw (Confirm ''Do you want to use existing AWS resources?'' False))
         (Errorf ''Error: '') (\<lambda>useExistingResources.
     seq (GetAWSAccountDetails gw region)
         (Errorf ''Error fetching AWS Account ID: '') (\<lambda>details.
     seq (IamOperations gw region ''EKSClusterRole'')
         (Errorf ''Error creating or attaching policies to EKSClusterRole: '') (\<lambda>u.
     ret \<lparr> var_region = region, var_clusterName = ''Sandbox-'' @ name,
           var_k8sVersion = k8sVersion, var_accountID = fst details,
           var_useExistingResources = useExistingResources \<rparr>)))))))"

text \<open>Lines 69 to 145 of part_000: resource handling and the cluster.\<close>

definition main_part_000 :: "gateway \<Rightarrow> unit action" where
  "main_part_000 gw =
     seq (part_000_prologue gw) unwrapped (\<lambda>locals.
     seq (if var_useExistingResources locals
          then reuse_existing_resources gw (var_region locals)
          else part_000_new gw (var_region locals))
         unwrapped (\<lambda>resources.
     seq (CreateEKSCluster_aws2 gw (var_region locals) (var_clusterName locals) (var_accountID locals)
            (fst (snd resources)) (snd (snd resources)) (var_k8sVersion locals))
         (Errorf ''Error creating EKS Cluster: '') (\<lambda>u.
     ret ())))"

section \<open>Statements about the calls of a run\<close>

text \<open>
  The definitions of this section are used to state and prove properties; they are not
  part of the program. \<open>run_inv Q m\<close> says that from every history \<open>h\<close> the action \<open>m\<close> only
  appends calls to \<open>h\<close> and that the appended calls \<open>tr\<close> satisfy \<open>Q h tr\<close>, whatever the
  result of \<open>m\<close> is (value, error or panic). \<open>emits P m\<close> is the case where every appended
  call satisfies \<open>P\<close>. \<open>new_calls h h'\<close> are the calls of \<open>h'\<close> after the first \<open>length h\<close>.
\<close>

definition run_inv :: "(history \<Rightarrow> call list \<Rightarrow> bool) \<Rightarrow> 'a action \<Rightarrow> bool" where
  "run_inv Q m \<longleftrightarrow> (\<forall>h. \<exists>tr. snd (m h) = h @ tr \<and> Q h tr)"

definition emits :: "(call \<Rightarrow> bool) \<Rightarrow> 'a action \<Rightarrow> bool" where
  "emits P m = run_inv (\<lambda>h tr. list_all P tr) m"

definition new_calls :: "history \<Rightarrow> history \<Rightarrow> call list" where
  "new_calls h h' = drop (length h) h'"

text \<open>
  Kinds of calls. \<open>read_only\<close>: loading the configuration, describe, list and identity
  requests and prompts. \<open>deleting\<close>: every delete and detach request. \<open>creates_cluster\<close>:
  the \<open>CreateCluster\<close> request.
\<close>

fun read_only :: "call \<Rightarrow> bool" where
  "read_only (config_LoadDefaultConfig r) = True"
| "read_only sts_GetCallerIdentity = True"
| "read_only (ec2_DescribeVpcs s) = True"
| "read_only (ec2_DescribeSubnets s) = True"
| "read_only (ec2_DescribeInternetGateways s) = True"
| "read_only (ec2_DescribeRouteTables s) = True"
| "read_only (ec2_DescribeSecurityGroups s) = True"
| "read_only (ec2_DescribeNetworkInterfaces s) = True"
| "read_only (eks_DescribeClusterVersions b) = True"
| "read_only eks_ListClusters = True"
| "read_only (eks_DescribeCluster n) = True"
| "read_only (survey_AskOne p) = True"
| "read_only c = False"

fun deleting :: "call \<Rightarrow> bool" where
  "deleting (eks_DeleteCluster n) = True"
| "deleting (ec2_DetachNetworkInterface a f) = True"
| "deleting (ec2_DeleteNetworkInterface i) = True"
| "deleting (ec2_DetachInternetGateway g v) = True"
| "deleting (ec2_DeleteInternetGateway g) = True"
| "deleting (ec2_DeleteSubnet s) = True"
| "deleting (ec2_DeleteRouteTable r) = True"
| "deleting (ec2_DeleteSecurityGroup g) = True"
| "deleting (ec2_DeleteVpc v) = True"
| "deleting c = False"

fun creates_cluster :: "call \<Rightarrow> bool" where
  "creates_cluster (eks_CreateCluster input) = True"
| "creates_cluster c = False"

text \<open>
  The stages of the network teardown, in the order of the specification: network
  interfaces 1, internet gateways 2, subnets 3, route tables 4, security groups 5, the
  network 6. Calls that delete or detach nothing in the network have no stage. \<open>stages\<close>
  is the sequence of stages of a list of calls; \<open>staged lo hi m\<close> says that the stages of
  the calls of \<open>m\<close> are in ascending order and between \<open>lo\<close> and \<open>hi\<close>.
\<close>

fun stage :: "call \<Rightarrow> nat option" where
  "stage (ec2_DetachNetworkInterface a f) = Some 1"
| "stage (ec2_DeleteNetworkInterface i) = Some 1"
| "stage (ec2_DetachInternetGateway g v) = Some 2"
| "stage (ec2_DeleteInternetGateway g) = Some 2"
| "stage (ec2_DeleteSubnet s) = Some 3"
| "stage (ec2_DeleteRouteTable r) = Some 4"
| "stage (ec2_DeleteSecurityGroup g) = Some 5"
| "stage (ec2_DeleteVpc v) = Some 6"
| "stage c = None"

fun stages :: "call list \<Rightarrow> nat list" where
  "stages [] = []"
| "stages (c # cs) = (case stage c of None \<Rightarrow> stages cs | Some n \<Rightarrow> n # stages cs)"

definition in_stage :: "nat \<Rightarrow> call \<Rightarrow> bool" where
  "in_stage n c \<longleftrightarrow> stage c = None \<or> stage c = Some n"

definition staged :: "nat \<Rightarrow> nat \<Rightarrow> 'a action \<Rightarrow> bool" where
  "staged lo hi m =
     run_inv (\<lambda>h tr. sorted (stages tr) \<and> (\<forall>n \<in> set (stages tr). lo \<le> n \<and> n \<le> hi)) m"

text \<open>
  The calls that detach and delete every interface of an enumeration, in order.
\<close>

fun interface_calls :: "NetworkInterface list \<Rightarrow> call list" where
  "interface_calls [] = []"
| "interface_calls (eni # rest) =
     ec2_DetachNetworkInterface (case Attachment eni of None \<Rightarrow> None | Some a \<Rightarrow> AttachmentId a) True #
     ec2_DeleteNetworkInterface (NetworkInterfaceId eni) # interface_calls rest"

text \<open>
  \<open>described_main gw h rtbID\<close>: asked at history \<open>h\<close> to describe the route table, the
  gateway answers with a table that has a main association; \<open>described_default\<close> likewise
  for a security group named \<open>default\<close>. A call is \<open>permitted\<close> at a history unless it
  deletes a route table or security group without the describe call for the same
  identifier right before it, or with a describe answer that showed the main flag or the
  default name. \<open>guarded gw h tr\<close>: every call of \<open>tr\<close>, issued in turn from \<open>h\<close>, is permitted.
\<close>

definition described_main :: "gateway \<Rightarrow> history \<Rightarrow> string \<Rightarrow> bool" where
  "described_main gw h rtbID =
     (case gw_route_tables gw h (ec2_DescribeRouteTables (Ids [rtbID])) of
        Inr (rtb # others) \<Rightarrow> isMainRouteTable rtb
      | _ \<Rightarrow> False)"

definition described_default :: "gateway \<Rightarrow> history \<Rightarrow> string \<Rightarrow> bool" where
  "described_default gw h sgID =
     (case gw_security_groups gw h (ec2_DescribeSecurityGroups (Ids [sgID])) of
        Inr (sg # others) \<Rightarrow> GroupName sg = Some ''default''
      | _ \<Rightarrow> False)"

definition permitted :: "gateway \<Rightarrow> history \<Rightarrow> call \<Rightarrow> bool" where
  "permitted gw h c =
     (case c of
        ec2_DeleteRouteTable rtbID \<Rightarrow>
          h \<noteq> [] \<and> last h = ec2_DescribeRouteTables (Ids [rtbID]) \<and>
          \<not> described_main gw (butlast h) rtbID
      | ec2_DeleteSecurityGroup sgID \<Rightarrow>
          h \<noteq> [] \<and> last h = ec2_DescribeSecurityGroups (Ids [sgID]) \<and>
          \<not> described_default gw (butlast h) sgID
      | _ \<Rightarrow> True)"

fun guarded :: "gateway \<Rightarrow> history \<Rightarrow> call list \<Rightarrow> bool" where
  "guarded gw h [] = True"
| "guarded gw h (c # cs) = (permitted gw h c \<and> guarded gw (h @ [c]) cs)"

definition guarded_run :: "gateway \<Rightarrow> 'a action \<Rightarrow> bool" where
  "guarded_run gw m = run_inv (guarded gw) m"

section \<open>Example gateways\<close>

text \<open>
  Concrete gateways and operators on which the theorems below are exercised. \<open>gw_base\<close>
  answers every request successfully: one cluster \<open>Sandbox-demo\<close> tagged with the
  provenance tag only, one network \<open>vpc-1\<close> with one attached interface, one internet
  gateway, two subnets, a main and a custom route table, and the default and a custom
  security group. Its operator chooses the given action, accepts every default, names the
  cluster \<open>demo\<close>, picks the first option of a selection and confirms every question. The
  other gateways differ from it in the one answer their name says.
\<close>

definition operator_string :: "string \<Rightarrow> call \<Rightarrow> error + string" where
  "operator_string action c =
     (case c of
        survey_AskOne (Select message options) \<Rightarrow>
          Inr (if options = [''Create Cluster'', ''Delete Cluster''] then action
               else (case options of [] \<Rightarrow> [] | x # xs \<Rightarrow> x))
      | survey_AskOne (Input message dflt required) \<Rightarrow>
          Inr (if required then ''demo'' else dflt)
      | _ \<Rightarrow> Inr [])"

definition fixture_route_table :: "string \<Rightarrow> RouteTable" where
  "fixture_route_table rtbID =
     \<lparr> RouteTableId = Some rtbID, Associations = [\<lparr> Main = Some (rtbID = ''rtb-main'') \<rparr>] \<rparr>"

definition fixture_route_tables :: "call \<Rightarrow> error + RouteTable list" where
  "fixture_route_tables c =
     (case c of
        ec2_DescribeRouteTables (Ids [rtbID]) \<Rightarrow> Inr [fixture_route_table rtbID]
      | _ \<Rightarrow> Inr [fixture_route_table ''rtb-main'', fixture_route_table ''rtb-1''])"

definition fixture_security_group :: "string \<Rightarrow> SecurityGroup" where
  "fixture_security_group sgID =
     \<lparr> GroupId = Some sgID,
       GroupName = Some (if sgID = ''sg-default'' then ''default'' else ''EKS-SG'') \<rparr>"

definition fixture_security_groups :: "call \<Rightarrow> error + SecurityGroup list" where
  "fixture_security_groups c =
     (case c of
        ec2_DescribeSecurityGroups (Ids [sgID]) \<Rightarrow> Inr [fixture_security_group sgID]
      | _ \<Rightarrow> Inr [fixture_security_group ''sg-default'', fixture_security_group ''sg-1''])"

definition fixture_ids :: "call \<Rightarrow> error + string option list" where
  "fixture_ids c =
     (case c of
        eks_DescribeClusterVersions includeAll \<Rightarrow> Inr [Some ''1.30'', None, Some ''1.31'']
      | ec2_DescribeInternetGateways s \<Rightarrow> Inr [Some ''igw-1'']
      | ec2_DescribeSubnets s \<Rightarrow> Inr [Some ''subnet-1'', Some ''subnet-2'']
      | _ \<Rightarrow> Inr [Some ''vpc-1''])"

definition fixture_created :: "call \<Rightarrow> error + created option" where
  "fixture_created c =
     (case c of
        ec2_CreateVpc cidr t \<Rightarrow> Inr (Some \<lparr> ResourceId = Some ''vpc-1'' \<rparr>)
      | ec2_CreateSubnet vpcID cidr zone t \<Rightarrow> Inr (Some \<lparr> ResourceId = Some (''subnet-'' @ zone) \<rparr>)
      | ec2_CreateInternetGateway t \<Rightarrow> Inr (Some \<lparr> ResourceId = Some ''igw-1'' \<rparr>)
      | ec2_CreateRouteTable vpcID t \<Rightarrow> Inr (Some \<lparr> ResourceId = Some ''rtb-1'' \<rparr>)
      | _ \<Rightarrow> Inr None)"

definition fixture_id :: "call \<Rightarrow> error + string option" where
  "fixture_id c =
     (case c of
        ec2_CreateSecurityGroup name description vpcID t \<Rightarrow> Inr (Some ''sg-1'')
      | _ \<Rightarrow> Inr None)"

definition gw_base :: "string \<Rightarrow> gateway" where
  "gw_base action =
     \<lparr> gw_unit = (\<lambda>h c. Inr ()),
       gw_created = (\<lambda>h. fixture_created),
       gw_id = (\<lambda>h. fixture_id),
       gw_identity = (\<lambda>h c. Inr (Some ''123456789012'', Some ''arn:aws:iam::123456789012:user/dev'')),
       gw_ids = (\<lambda>h. fixture_ids),
       gw_names = (\<lambda>h c. Inr [''Sandbox-demo'']),
       gw_route_tables = (\<lambda>h. fixture_route_tables),
       gw_security_groups = (\<lambda>h. fixture_security_groups),
       gw_cluster = (\<lambda>h c. Inr (Some \<lparr> Tags = Some [''CreatedBy'' \<mapsto> ''EKS-Sandbox-Tool''] \<rparr>)),
       gw_network_interfaces =
         (\<lambda>h c. Inr [\<lparr> Attachment = Some \<lparr> AttachmentId = Some ''eni-attach-1'' \<rparr>,
                          NetworkInterfaceId = Some ''eni-1'' \<rparr>]),
       gw_string = (\<lambda>h. operator_string action),
       gw_bool = (\<lambda>h c. Inr True),
       time_Now = (\<lambda>h. ''2025-01-31'') \<rparr>"

text \<open>The calls of \<open>DeleteVPC\<close> for \<open>vpc-1\<close> against \<open>gw_base\<close>.\<close>

definition teardown_trace :: "call list" where
  "teardown_trace =
     [config_LoadDefaultConfig ''eu-west-2'',
      ec2_DescribeNetworkInterfaces (Filter ''vpc-id'' [''vpc-1'']),
      ec2_DetachNetworkInterface (Some ''eni-attach-1'') True,
      ec2_DeleteNetworkInterface (Some ''eni-1''),
      ec2_DescribeVpcs (Ids [''vpc-1'']),
      config_LoadDefaultConfig ''eu-west-2'',
      ec2_DescribeInternetGateways (Filter ''attachment.vpc-id'' [''vpc-1'']),
      ec2_DetachInternetGateway ''igw-1'' ''vpc-1'',
      ec2_DeleteInternetGateway ''igw-1'',
      config_LoadDefaultConfig ''eu-west-2'',
      ec2_DescribeSubnets (Filter ''vpc-id'' [''vpc-1'']),
      ec2_DeleteSubnet ''subnet-1'',
      ec2_DeleteSubnet ''subnet-2'',
      config_LoadDefaultConfig ''eu-west-2'',
      ec2_DescribeRouteTables (Filter ''vpc-id'' [''vpc-1'']),
      ec2_DescribeRouteTables (Ids [''rtb-main'']),
      ec2_DescribeRouteTables (Ids [''rtb-1'']),
      ec2_DeleteRouteTable ''rtb-1'',
      config_LoadDefaultConfig ''eu-west-2'',
      ec2_DescribeSecurityGroups (Filter ''vpc-id'' [''vpc-1'']),
      ec2_DescribeSecurityGroups (Ids [''sg-default'']),
      ec2_DescribeSecurityGroups (Ids [''sg-1'']),
      ec2_DeleteSecurityGroup ''sg-1'',
      ec2_DeleteVpc ''vpc-1'']"

definition gw_unattached :: gateway where
  "gw_unattached =
     (gw_base ''Delete Cluster'')
       \<lparr> gw_network_interfaces :=
           (\<lambda>h c. Inr [\<lparr> Attachment = None, NetworkInterfaceId = Some ''eni-1'' \<rparr>]) \<rparr>"

definition gw_detach_fails :: gateway where
  "gw_detach_fails =
     (gw_base ''Delete Cluster'')
       \<lparr> gw_unit := (\<lambda>h c. case c of
                         ec2_DetachNetworkInterface a f \<Rightarrow> Inl (ErrorString ''OperationNotPermitted'')
                       | _ \<Rightarrow> Inr ()) \<rparr>"

definition gw_config_fails :: gateway where
  "gw_config_fails =
     (gw_base ''Delete Cluster'')
       \<lparr> gw_unit := (\<lambda>h c. case c of
                         config_LoadDefaultConfig r \<Rightarrow> Inl (ErrorString ''no credentials'')
                       | _ \<Rightarrow> Inr ()) \<rparr>"

definition gw_role_exists :: gateway where
  "gw_role_exists =
     (gw_base ''Create Cluster'')
       \<lparr> gw_unit := (\<lambda>h c. case c of
                         iam_CreateRole roleName document \<Rightarrow>
                           Inl (EntityAlreadyExistsException ''Role with name EKSClusterRole already exists.'')
                       | _ \<Rightarrow> Inr ()) \<rparr>"

definition gw_role_denied :: gateway where
  "gw_role_denied =
     (gw_base ''Create Cluster'')
       \<lparr> gw_unit := (\<lambda>h c. case c of
                         iam_CreateRole roleName document \<Rightarrow> Inl (ErrorString ''AccessDenied'')
                       | _ \<Rightarrow> Inr ()) \<rparr>"

definition gw_foreign_declined :: gateway where
  "gw_foreign_declined =
     (gw_base ''Delete Cluster'')
       \<lparr> gw_cluster := (\<lambda>h c. Inr (Some \<lparr> Tags = None \<rparr>)),
         gw_bool := (\<lambda>h c. Inr False) \<rparr>"

definition gw_one_subnet :: gateway where
  "gw_one_subnet =
     (gw_base ''Create Cluster'')
       \<lparr> gw_names := (\<lambda>h c. Inr [''subnet-1'']) \<rparr>"

text \<open>
  A value for the parameter of the model of part_002: the \<open>CreateEKSCluster\<close> of aws2.js,
  ignoring the two extra arguments.
\<close>

definition createCluster_stub :: createCluster_part_002 where
  "createCluster_stub gw region clusterName accountID subnetIDs securityGroupIDs k8sVersion
     useExistingResources vpcID =
     CreateEKSCluster_aws2 gw region clusterName accountID subnetIDs securityGroupIDs k8sVersion"

definition gw_route_fails :: gateway where
  "gw_route_fails =
     (gw_base ''Create Cluster'')
       \<lparr> gw_unit := (\<lambda>h c. case c of
                         ec2_CreateRoute rtb cidr igw \<Rightarrow> Inl (ErrorString ''InvalidGatewayID.NotFound'')
                       | ec2_AssociateRouteTable rtb subnet \<Rightarrow> Inl (ErrorString ''InvalidSubnetID.NotFound'')
                       | _ \<Rightarrow> Inr ()) \<rparr>"

text \<open>
  The calls of a creation run of part_002 and of part_000 against \<open>gw_one_subnet\<close>, and the
  local variables after the prompts.
\<close>

definition reuse_trace :: "call list" where
  "reuse_trace =
     [survey_AskOne action_prompt,
      survey_AskOne (Input ''Enter the AWS region default:'' ''eu-west-2'' False),
      survey_AskOne (Input ''Enter the name of the EKS cluster:'' [] True),
      config_LoadDefaultConfig ''eu-west-2'',
      eks_DescribeClusterVersions True,
      survey_AskOne (Input ''Enter the Kubernetes version default:'' ''1.31'' False),
      survey_AskOne
        (Confirm (''Do you want to create a cluster in existing VPC and subnets etc..? '' @
                  ''(Recommended No)'') False),
      config_LoadDefaultConfig ''eu-west-2'',
      sts_GetCallerIdentity,
      config_LoadDefaultConfig ''eu-west-2'',
      iam_CreateRole ''EKSClusterRole'' assumeRolePolicy,
      iam_AttachRolePolicy ''EKSClusterRole'' ''arn:aws:iam::aws:policy/AmazonEKSClusterPolicy'',
      iam_AttachRolePolicy ''EKSClusterRole'' ''arn:aws:iam::aws:policy/AmazonEKSVPCResourceController'',
      config_LoadDefaultConfig ''eu-west-2'',
      ec2_DescribeVpcs Everything,
      survey_AskOne (Select ''Select an existing VPC:'' [''vpc-1'']),
      config_LoadDefaultConfig ''eu-west-2'',
      ec2_DescribeSubnets (Filter ''vpc-id'' [''vpc-1'']),
      survey_AskOne (MultiSelect ''Select subnets to use:'' [''subnet-1'', ''subnet-2''])]"

definition reuse_locals :: create_locals where
  "reuse_locals =
     \<lparr> var_region = ''eu-west-2'', var_clusterName = ''Sandbox-demo'', var_k8sVersion = ''1.31'',
       var_accountID = ''123456789012'', var_useExistingResources = True \<rparr>"

text \<open>The calls of a teardown run of main.go against \<open>gw_base\<close>.\<close>

definition untagged_trace :: "call list" where
  "untagged_trace =
     [survey_AskOne action_prompt,
      survey_AskOne delete_region_prompt,
      config_LoadDefaultConfig ''eu-west-2'',
      eks_ListClusters,
      survey_AskOne (select_cluster_prompt [''Sandbox-demo'']),
      config_LoadDefaultConfig ''eu-west-2'',
      eks_DescribeCluster ''Sandbox-demo'',
      config_LoadDefaultConfig ''eu-west-2'',
      eks_DescribeCluster ''Sandbox-demo'']"

definition reuse_trace_000 :: "call list" where
  "reuse_trace_000 =
     [survey_AskOne (Input ''Enter the AWS region default:'' ''eu-west-2'' False),
      survey_AskOne (Input ''Enter the name of the EKS cluster:'' [] True),
      config_LoadDefaultConfig ''eu-west-2'',
      eks_DescribeClusterVersions True,
      survey_AskOne (Input ''Enter the Kubernetes version default:'' ''1.31'' False),
      survey_AskOne (Confirm ''Do you want to use existing AWS resources?'' False),
      config_LoadDefaultConfig ''eu-west-2'',
      sts_GetCallerIdentity,
      config_LoadDefaultConfig ''eu-west-2'',
      iam_CreateRole ''EKSClusterRole'' assumeRolePolicy,
      iam_AttachRolePolicy ''EKSClusterRole'' ''arn:aws:iam::aws:policy/AmazonEKSClusterPolicy'',
      iam_AttachRolePolicy ''EKSClusterRole'' ''arn:aws:iam::aws:policy/AmazonEKSVPCResourceController'',
      config_LoadDefaultConfig ''eu-west-2'',
      ec2_DescribeVpcs Everything,
      survey_AskOne (Select ''Select an existing VPC:'' [''vpc-1'']),
      config_LoadDefaultConfig ''eu-west-2'',
      ec2_DescribeSubnets (Filter ''vpc-id'' [''vpc-1'']),
      survey_AskOne (MultiSelect ''Select subnets to use:'' [''subnet-1'', ''subnet-2''])]"

section \<open>Properties of the version resolver\<close>

lemma mset_insert_by: "mset (insert_by lt x ys) = add_mset x (mset ys)"
  by (induction ys) auto

lemma mset_sort_Slice: "mset (sort_Slice lt xs) = mset xs"
  by (induction xs) (auto simp: mset_insert_by)

lemma set_insert_by: "set (insert_by lt x ys) = insert x (set ys)"
  by (induction ys) auto

lemma sorted_rev_insert_by:
  fixes x :: "'a::linorder"
  assumes "sorted (rev ys)"
  shows "sorted (rev (insert_by (\<lambda>a b. a > b) x ys))"
  using assms
  by (induction ys) (auto simp: sorted_append set_insert_by)

lemma sorted_rev_sort_Slice:
  fixes xs :: "('a::linorder) list"
  shows "sorted (rev (sort_Slice (\<lambda>a b. a > b) xs))"
  by (induction xs) (auto simp: sorted_rev_insert_by)

lemma sort_Slice_descending:
  fixes xs :: "('a::linorder) list"
  shows "sort_Slice (\<lambda>a b. a > b) xs = rev (sort xs)"
proof -
  have "sort xs = rev (sort_Slice (\<lambda>a b. a > b) xs)"
    by (rule properties_for_sort) (simp_all add: mset_sort_Slice sorted_rev_sort_Slice)
  then show ?thesis by simp
qed

text \<open>
  C5: for every non-empty list of version strings the resolver returns the first element
  of the list sorted in descending lexicographic order, and on \<open>["1.28", "1.9", "1.10"]\<close>
  it returns \<open>"1.9"\<close>.
\<close>

theorem getLatestVersion_lexicographic:
  "(versions \<noteq> [] \<longrightarrow>
      sorted_descending versions \<noteq> [] \<and>
      getLatestVersion versions = Ok (hd (sorted_descending versions))) \<and>
   getLatestVersion [''1.28'', ''1.9'', ''1.10''] = Ok ''1.9''"
proof -
  have general: "getLatestVersion vs = Ok (hd (sorted_descending vs))"
    and nonempty: "sorted_descending vs \<noteq> []" if "vs \<noteq> []" for vs
  proof -
    have "length (rev (sort vs)) = length vs" by simp
    with that have ne: "rev (sort vs) \<noteq> []" by (metis length_0_conv)
    then show "sorted_descending vs \<noteq> []" by (simp add: sorted_descending_def)
    from ne show "getLatestVersion vs = Ok (hd (sorted_descending vs))"
      by (simp add: getLatestVersion_def sorted_descending_def sort_Slice_descending
               split: list.splits)
  qed
  have "getLatestVersion [''1.28'', ''1.9'', ''1.10''] = Ok ''1.9''"
    by (simp add: getLatestVersion_def)
  with general nonempty show ?thesis by blast
qed

theorem getLatestVersion_lexicographic_witness:
  "[''1.26'', ''1.31'', ''1.30''] \<noteq> [] \<and>
   sorted_descending [''1.26'', ''1.31'', ''1.30''] = [''1.31'', ''1.30'', ''1.26''] \<and>
   getLatestVersion [''1.26'', ''1.31'', ''1.30''] = Ok ''1.31''"
proof -
  have s: "sorted_descending [''1.26'', ''1.31'', ''1.30''] = [''1.31'', ''1.30'', ''1.26'']"
    by (simp add: sorted_descending_def sort_key_def)
  from getLatestVersion_lexicographic [of "[''1.26'', ''1.31'', ''1.30'']"] s
  show ?thesis by simp
qed

section \<open>Rules for the calls of a run\<close>

lemma run_invD: "run_inv Q m \<Longrightarrow> m h = (r, h') \<Longrightarrow> \<exists>tr. h' = h @ tr \<and> Q h tr"
  by (metis run_inv_def snd_conv)

lemma run_inv_ret: "(\<And>h. Q h []) \<Longrightarrow> run_inv Q (ret x)"
  by (simp add: run_inv_def ret_def)

lemma run_inv_fail: "(\<And>h. Q h []) \<Longrightarrow> run_inv Q (fail e)"
  by (simp add: run_inv_def fail_def)

lemma run_inv_panic: "(\<And>h. Q h []) \<Longrightarrow> run_inv Q panic"
  by (simp add: run_inv_def panic_def)

lemma run_inv_request: "(\<And>h. Q h [c]) \<Longrightarrow> run_inv Q (request answer c)"
  by (simp add: run_inv_def request_def split: sum.splits)

lemma run_inv_attempt:
  assumes comp: "\<And>h a b. Q1 h a \<Longrightarrow> Q2 (h @ a) b \<Longrightarrow> Q h (a @ b)"
    and weak: "\<And>h a. Q1 h a \<Longrightarrow> Q h a"
    and m: "run_inv Q1 m"
    and hd: "\<And>e. run_inv Q2 (handler e)"
    and k: "\<And>x. run_inv Q2 (k x)"
  shows "run_inv Q (attempt m handler k)"
  unfolding run_inv_def
proof
  fix h
  obtain r h1 where mh: "m h = (r, h1)" by (cases "m h")
  from run_invD [OF m mh] obtain a where a: "h1 = h @ a" "Q1 h a" by blast
  show "\<exists>tr. snd (attempt m handler k h) = h @ tr \<and> Q h tr"
  proof (cases r)
    case (Ok x)
    obtain r2 h2 where kh: "k x h1 = (r2, h2)" by (cases "k x h1")
    from run_invD [OF k kh] obtain b where b: "h2 = h1 @ b" "Q2 h1 b" by blast
    from a b comp have "Q h (a @ b)" by simp
    with Ok mh kh a b show ?thesis by (auto simp: attempt_def)
  next
    case (Err e)
    obtain r2 h2 where kh: "handler e h1 = (r2, h2)" by (cases "handler e h1")
    from run_invD [OF hd kh] obtain b where b: "h2 = h1 @ b" "Q2 h1 b" by blast
    from a b comp have "Q h (a @ b)" by simp
    with Err mh kh a b show ?thesis by (auto simp: attempt_def)
  next
    case Panic
    with mh a weak show ?thesis by (auto simp: attempt_def)
  qed
qed

lemma seq_attempt: "seq m wrap k = attempt m (\<lambda>e. fail (wrap e)) k"
  by (rule ext) (simp add: seq_def attempt_def fail_def split: prod.splits result.splits)

lemma discard_attempt: "discard m k = attempt m (\<lambda>e. k) (\<lambda>x. k)"
  by (rule ext) (simp add: discard_def attempt_def split: prod.splits result.splits)

lemma run_inv_seq:
  assumes comp: "\<And>h a b. Q1 h a \<Longrightarrow> Q2 (h @ a) b \<Longrightarrow> Q h (a @ b)"
    and weak: "\<And>h a. Q1 h a \<Longrightarrow> Q h a"
    and nil: "\<And>h. Q2 h []"
    and m: "run_inv Q1 m"
    and k: "\<And>x. run_inv Q2 (k x)"
  shows "run_inv Q (seq m wrap k)"
  unfolding seq_attempt
proof (rule run_inv_attempt [where ?Q1.0 = Q1 and ?Q2.0 = Q2])
  show "run_inv Q2 (fail (wrap e))" for e by (rule run_inv_fail) (rule nil)
qed (use assms in auto)

lemma run_inv_discard:
  assumes comp: "\<And>h a b. Q1 h a \<Longrightarrow> Q2 (h @ a) b \<Longrightarrow> Q h (a @ b)"
    and weak: "\<And>h a. Q1 h a \<Longrightarrow> Q h a"
    and m: "run_inv Q1 m"
    and k: "run_inv Q2 k"
  shows "run_inv Q (discard m k)"
  unfolding discard_attempt
  by (rule run_inv_attempt [where ?Q1.0 = Q1 and ?Q2.0 = Q2]) (use assms in auto)

lemma run_inv_deref:
  assumes "\<And>h. Q h []" and "\<And>v. run_inv Q (k v)"
  shows "run_inv Q (deref p k)"
  using assms by (cases p) (auto simp: deref_def intro: run_inv_panic)

lemma emits_ret: "emits P (ret x)" and emits_fail: "emits P (fail e)" and emits_panic: "emits P panic"
  by (simp_all add: emits_def run_inv_ret run_inv_fail run_inv_panic)

lemma emits_request: "P c \<Longrightarrow> emits P (request answer c)"
  by (simp add: emits_def run_inv_request)

lemma emits_seq: "emits P m \<Longrightarrow> (\<And>x. emits P (k x)) \<Longrightarrow> emits P (seq m wrap k)"
  unfolding emits_def by (rule run_inv_seq [where ?Q1.0 = "\<lambda>h tr. list_all P tr" and ?Q2.0 = "\<lambda>h tr. list_all P tr"]) auto

lemma emits_attempt: "emits P m \<Longrightarrow> (\<And>e. emits P (handler e)) \<Longrightarrow> (\<And>x. emits P (k x)) \<Longrightarrow> emits P (attempt m handler k)"
  unfolding emits_def by (rule run_inv_attempt [where ?Q1.0 = "\<lambda>h tr. list_all P tr" and ?Q2.0 = "\<lambda>h tr. list_all P tr"]) auto

lemma emits_discard: "emits P m \<Longrightarrow> emits P k \<Longrightarrow> emits P (discard m k)"
  unfolding emits_def by (rule run_inv_discard [where ?Q1.0 = "\<lambda>h tr. list_all P tr" and ?Q2.0 = "\<lambda>h tr. list_all P tr"]) auto

lemma emits_deref: "(\<And>v. emits P (k v)) \<Longrightarrow> emits P (deref p k)"
  unfolding emits_def by (rule run_inv_deref) auto

lemmas emits_intros = emits_ret emits_fail emits_panic emits_request emits_seq emits_attempt emits_discard emits_deref

lemma emits_mono: "emits P m \<Longrightarrow> (\<And>c. P c \<Longrightarrow> P' c) \<Longrightarrow> emits P' m"
  unfolding emits_def run_inv_def by (metis (mono_tags, lifting) list_all_iff)

lemma emitsD: "emits P m \<Longrightarrow> m h = (r, h') \<Longrightarrow> \<exists>tr. h' = h @ tr \<and> list_all P tr"
  unfolding emits_def by (rule run_invD)

section \<open>What the AWS operations may issue\<close>

lemma read_only_stage: "read_only c \<Longrightarrow> stage c = None"
  by (cases c) auto

lemma read_only_not_deleting: "read_only c \<Longrightarrow> \<not> deleting c"
  by (cases c) auto

lemma stages_append: "stages (xs @ ys) = stages xs @ stages ys"
  by (induction xs) (auto split: option.splits)

lemma set_stages: "set (stages tr) = {n. \<exists>c \<in> set tr. stage c = Some n}"
  by (induction tr) (auto split: option.splits)

lemma ListSubnets_emits: "emits read_only (ListSubnets gw region vpcID)"
  and ListInternetGateways_emits: "emits read_only (ListInternetGateways gw region vpcID)"
  and ListRouteTables_emits: "emits read_only (ListRouteTables gw region vpcID)"
  and ListSecurityGroups_emits: "emits read_only (ListSecurityGroups gw region vpcID)"
  and ListVPCs_emits: "emits read_only (ListVPCs gw region)"
  and ListEKSClusters_emits: "emits read_only (ListEKSClusters gw region)"
  unfolding ListSubnets_def ListInternetGateways_def ListRouteTables_def ListSecurityGroups_def
    ListVPCs_def ListEKSClusters_def
  by (auto intro!: emits_intros)

lemma CheckClusterTag_emits: "emits read_only (CheckClusterTag gw region clusterName tagName tagValue)"
  unfolding CheckClusterTag_def
  by (auto intro!: emits_intros split: option.splits)

lemma GetVPCIDFromCluster_emits: "emits read_only (GetVPCIDFromCluster gw region clusterName)"
  unfolding GetVPCIDFromCluster_def
  by (auto intro!: emits_intros split: option.splits)

lemma DeleteVPC_interfaces_emits: "emits (in_stage 1) (DeleteVPC_interfaces gw enis)"
  by (induction enis) (auto intro!: emits_intros simp: in_stage_def)

lemma DeleteVPC_gateways_emits: "emits (in_stage 2) (DeleteVPC_gateways gw vpcID igws)"
  by (induction igws) (auto intro!: emits_intros simp: in_stage_def)

lemma DeleteVPC_subnets_emits: "emits (in_stage 3) (DeleteVPC_subnets gw subnets)"
  by (induction subnets) (auto intro!: emits_intros simp: in_stage_def)

lemma DeleteVPC_routeTables_emits: "emits (in_stage 4) (DeleteVPC_routeTables gw routeTables)"
  by (induction routeTables) (auto intro!: emits_intros simp: in_stage_def split: list.splits)

lemma isDefault_emits: "emits P (isDefault sgs)"
  by (auto simp: isDefault_def intro!: emits_intros split: list.splits)

lemma DeleteVPC_securityGroups_emits: "emits (in_stage 5) (DeleteVPC_securityGroups gw securityGroups)"
  by (induction securityGroups) (auto intro!: emits_intros isDefault_emits simp: in_stage_def)

section \<open>Order of the network teardown\<close>

lemma stages_read_only: "list_all read_only tr \<Longrightarrow> stages tr = []"
  by (induction tr) (auto simp: read_only_stage)

lemma stages_in_stage: "list_all (in_stage n) tr \<Longrightarrow> stages tr = replicate (length (stages tr)) n"
  by (induction tr) (auto simp: in_stage_def split: option.splits)

lemma emits_read_only_staged: "emits read_only m \<Longrightarrow> staged lo hi m"
  unfolding emits_def staged_def run_inv_def by (metis stages_read_only empty_iff list.set(1) sorted0)

lemma emits_in_stage_staged:
  assumes "emits (in_stage n) m" and "lo \<le> n" and "n \<le> hi"
  shows "staged lo hi m"
  unfolding staged_def run_inv_def
proof
  fix h
  from assms(1) obtain tr where tr: "snd (m h) = h @ tr" "list_all (in_stage n) tr"
    unfolding emits_def run_inv_def by blast
  from stages_in_stage [OF tr(2)] obtain k where k: "stages tr = replicate k n" by blast
  have "sorted (stages tr)" by (simp add: k sorted_replicate)
  moreover have "\<forall>x \<in> set (stages tr). lo \<le> x \<and> x \<le> hi" using assms(2,3) by (auto simp: k)
  ultimately show "\<exists>tr. snd (m h) = h @ tr \<and> sorted (stages tr) \<and> (\<forall>n\<in>set (stages tr). lo \<le> n \<and> n \<le> hi)"
    using tr(1) by blast
qed

lemma staged_ret: "staged lo hi (ret x)"
  by (simp add: staged_def run_inv_ret)

lemma staged_request: "stage c = Some n \<Longrightarrow> lo \<le> n \<Longrightarrow> n \<le> hi \<Longrightarrow> staged lo hi (request answer c)"
  by (simp add: staged_def run_inv_request)

lemma staged_seq:
  assumes "lo \<le> mid" and "mid \<le> hi" and "staged lo mid m" and "\<And>x. staged mid hi (k x)"
  shows "staged lo hi (seq m wrap k)"
  unfolding staged_def
proof (rule run_inv_seq [where
      ?Q1.0 = "\<lambda>h tr. sorted (stages tr) \<and> (\<forall>n \<in> set (stages tr). lo \<le> n \<and> n \<le> mid)" and
      ?Q2.0 = "\<lambda>h tr. sorted (stages tr) \<and> (\<forall>n \<in> set (stages tr). mid \<le> n \<and> n \<le> hi)"])
  show "run_inv (\<lambda>h tr. sorted (stages tr) \<and> (\<forall>n\<in>set (stages tr). lo \<le> n \<and> n \<le> mid)) m"
    using assms(3) by (simp add: staged_def)
  show "run_inv (\<lambda>h tr. sorted (stages tr) \<and> (\<forall>n\<in>set (stages tr). mid \<le> n \<and> n \<le> hi)) (k x)" for x
    using assms(4) by (simp add: staged_def)
  show "sorted (stages []) \<and> (\<forall>n\<in>set (stages []). mid \<le> n \<and> n \<le> hi)" by simp
  show "sorted (stages a) \<and> (\<forall>n\<in>set (stages a). lo \<le> n \<and> n \<le> hi)"
    if "sorted (stages a) \<and> (\<forall>n\<in>set (stages a). lo \<le> n \<and> n \<le> mid)" for a
    using that assms(2) by (meson order_trans)
  show "sorted (stages (a @ b)) \<and> (\<forall>n\<in>set (stages (a @ b)). lo \<le> n \<and> n \<le> hi)"
    if a: "sorted (stages a) \<and> (\<forall>n\<in>set (stages a). lo \<le> n \<and> n \<le> mid)"
      and b: "sorted (stages b) \<and> (\<forall>n\<in>set (stages b). mid \<le> n \<and> n \<le> hi)" for a b
  proof
    have "x \<le> y" if "x \<in> set (stages a)" "y \<in> set (stages b)" for x y
      using that a b by (meson order_trans)
    with a b show "sorted (stages (a @ b))" by (simp add: stages_append sorted_append)
    show "\<forall>n\<in>set (stages (a @ b)). lo \<le> n \<and> n \<le> hi"
    proof
      fix n assume "n \<in> set (stages (a @ b))"
      then consider "n \<in> set (stages a)" | "n \<in> set (stages b)" by (auto simp: stages_append)
      then show "lo \<le> n \<and> n \<le> hi"
        using a b assms(1,2) by cases (meson order_trans)+
    qed
  qed
qed

lemma staged_weaken: "staged lo hi m \<Longrightarrow> lo' \<le> lo \<Longrightarrow> hi \<le> hi' \<Longrightarrow> staged lo' hi' m"
  unfolding staged_def run_inv_def
proof
  fix h
  assume a: "\<forall>h. \<exists>tr. snd (m h) = h @ tr \<and> sorted (stages tr) \<and> (\<forall>n\<in>set (stages tr). lo \<le> n \<and> n \<le> hi)"
    and b: "lo' \<le> lo" "hi \<le> hi'"
  from a obtain tr where tr: "snd (m h) = h @ tr" "sorted (stages tr)" "\<forall>n\<in>set (stages tr). lo \<le> n \<and> n \<le> hi"
    by blast
  from tr(3) b have "\<forall>n\<in>set (stages tr). lo' \<le> n \<and> n \<le> hi'" by (meson order_trans)
  with tr(1,2) show "\<exists>tr. snd (m h) = h @ tr \<and> sorted (stages tr) \<and> (\<forall>n\<in>set (stages tr). lo' \<le> n \<and> n \<le> hi')"
    by blast
qed

lemma DeleteVPC_network_staged: "staged 2 6 (DeleteVPC_network gw region vpcID)"
  unfolding DeleteVPC_network_def
  apply (rule staged_seq [where mid = 2], simp, simp)
   apply (rule emits_read_only_staged, simp add: emits_request)
  apply (rule staged_seq [where mid = 2], simp, simp)
   apply (rule emits_read_only_staged, rule ListInternetGateways_emits)
  apply (rule staged_seq [where mid = 2], simp, simp)
   apply (rule emits_in_stage_staged, rule DeleteVPC_gateways_emits, simp, simp)
  apply (rule staged_seq [where mid = 2], simp, simp)
   apply (rule emits_read_only_staged, rule ListSubnets_emits)
  apply (rule staged_seq [where mid = 3], simp, simp)
   apply (rule emits_in_stage_staged, rule DeleteVPC_subnets_emits, simp, simp)
  apply (rule staged_seq [where mid = 3], simp, simp)
   apply (rule emits_read_only_staged, rule ListRouteTables_emits)
  apply (rule staged_seq [where mid = 4], simp, simp)
   apply (rule emits_in_stage_staged, rule DeleteVPC_routeTables_emits, simp, simp)
  apply (rule staged_seq [where mid = 4], simp, simp)
   apply (rule emits_read_only_staged, rule ListSecurityGroups_emits)
  apply (rule staged_seq [where mid = 5], simp, simp)
   apply (rule emits_in_stage_staged, rule DeleteVPC_securityGroups_emits, simp, simp)
  apply (rule staged_seq [where mid = 6], simp, simp)
   apply (rule staged_request, simp, simp, simp)
  apply (rule staged_ret)
  done

lemma DeleteVPC_staged: "staged 1 6 (DeleteVPC gw region vpcID)"
  unfolding DeleteVPC_def
  apply (rule staged_seq [where mid = 1], simp, simp)
   apply (rule emits_read_only_staged, simp add: emits_request)
  apply (rule staged_seq [where mid = 1], simp, simp)
   apply (rule emits_read_only_staged, simp add: emits_request)
  apply (rule staged_seq [where mid = 1], simp, simp)
   apply (rule emits_in_stage_staged, rule DeleteVPC_interfaces_emits, simp, simp)
  apply (rule staged_weaken [OF DeleteVPC_network_staged], simp, simp)
  done

lemma seq_cases:
  assumes "seq m w k h = (r, h')"
  obtains (Ok) x h1 where "m h = (Ok x, h1)" "k x h1 = (r, h')"
    | (Err) e where "m h = (Err e, h')" "r = Err (w e)"
    | (Panic) "m h = (Panic, h')" "r = Panic"
  using assms by (auto simp: seq_def split: prod.splits result.splits)

lemma request_cases:
  assumes "request answer c h = (r, h')"
  obtains (Ok) v where "answer h c = Inr v" "r = Ok v" "h' = h @ [c]"
    | (Err) e where "answer h c = Inl e" "r = Err e" "h' = h @ [c]"
  using assms by (auto simp: request_def split: sum.splits)

lemma DeleteVPC_interfaces_Ok:
  "DeleteVPC_interfaces gw enis h = (Ok u, h') \<Longrightarrow>
     h' = h @ interface_calls enis \<and> list_all (\<lambda>eni. Attachment eni \<noteq> None) enis \<and>
     (\<forall>i < length (interface_calls enis).
        gw_unit gw (h @ take i (interface_calls enis)) (interface_calls enis ! i) = Inr ())"
proof (induction enis arbitrary: h)
  case Nil
  then show ?case by (simp add: ret_def)
next
  case (Cons eni rest)
  from Cons.prems obtain a where a: "Attachment eni = Some a"
    by (cases "Attachment eni") (auto simp: deref_def panic_def)
  let ?d = "ec2_DetachNetworkInterface (AttachmentId a) True"
  let ?x = "ec2_DeleteNetworkInterface (NetworkInterfaceId eni)"
  from Cons.prems a have d: "gw_unit gw h ?d = Inr ()"
    by (auto simp: deref_def attempt_def request_def fail_def panic_def
             split: sum.splits option.splits)
  from Cons.prems a d have x: "gw_unit gw (h @ [?d]) ?x = Inr ()"
    by (auto simp: deref_def attempt_def request_def fail_def panic_def
             split: sum.splits option.splits)
  from Cons.prems a d x have run: "DeleteVPC_interfaces gw rest (h @ [?d, ?x]) = (Ok u, h')"
    by (simp add: deref_def attempt_def request_def)
  note IH = Cons.IH [OF run]
  have calls: "interface_calls (eni # rest) = ?d # ?x # interface_calls rest"
    using a by simp
  have "gw_unit gw (h @ take i (interface_calls (eni # rest))) (interface_calls (eni # rest) ! i) = Inr ()"
    if i: "i < length (interface_calls (eni # rest))" for i
  proof (cases i)
    case 0
    with d calls show ?thesis by simp
  next
    case (Suc j)
    show ?thesis
    proof (cases j)
      case 0
      with Suc x calls show ?thesis by simp
    next
      case (Suc k)
      with \<open>i = Suc j\<close> i calls have k: "k < length (interface_calls rest)" by simp
      with IH have "gw_unit gw ((h @ [?d, ?x]) @ take k (interface_calls rest))
                      (interface_calls rest ! k) = Inr ()"
        by blast
      with Suc \<open>i = Suc j\<close> calls show ?thesis by simp
    qed
  qed
  with IH a calls show ?case by simp
qed

lemma stage_interface_calls: "c \<in> set (interface_calls enis) \<Longrightarrow> stage c = Some 1"
  by (induction enis) auto

lemma stagedD:
  "staged lo hi m \<Longrightarrow> m h = (r, h') \<Longrightarrow>
     \<exists>tr. h' = h @ tr \<and> sorted (stages tr) \<and> (\<forall>c \<in> set tr. \<forall>n. stage c = Some n \<longrightarrow> lo \<le> n \<and> n \<le> hi)"
  unfolding staged_def by (drule run_invD, assumption) (auto simp: set_stages)

text \<open>
  C3: in every run of \<open>DeleteVPC\<close>, from any history and against any gateway, the
  deleting and detaching calls are issued in the fixed order of stages (interfaces 1,
  internet gateways 2, subnets 3, route tables 4, security groups 5, the network 6), and
  whenever a call of stage 2 or later (so any gateway or subnet call) is issued, every
  interface enumerated by the preceding \<open>DescribeNetworkInterfaces\<close> answer has been
  detached and deleted before it: the run starts with the detach and the delete call of
  each enumerated interface, in order, the gateway answered each of these calls without
  an error at the history it was issued from, and no interface call follows.
\<close>

theorem DeleteVPC_order:
  assumes run: "DeleteVPC gw region vpcID h = (r, h')"
  shows "\<exists>tr. h' = h @ tr \<and> sorted (stages tr) \<and>
     (\<forall>c \<in> set tr. (\<exists>n. stage c = Some n \<and> 2 \<le> n) \<longrightarrow>
        (\<exists>enis rest.
           gw_network_interfaces gw (h @ [config_LoadDefaultConfig region])
             (ec2_DescribeNetworkInterfaces (vpc_filter vpcID)) = Inr enis \<and>
           list_all (\<lambda>eni. Attachment eni \<noteq> None) enis \<and>
           tr = config_LoadDefaultConfig region # ec2_DescribeNetworkInterfaces (vpc_filter vpcID) #
                  interface_calls enis @ rest \<and>
           (\<forall>i < length (interface_calls enis).
              gw_unit gw
                (h @ config_LoadDefaultConfig region # ec2_DescribeNetworkInterfaces (vpc_filter vpcID) #
                   take i (interface_calls enis))
                (interface_calls enis ! i) = Inr ()) \<and>
           c \<in> set rest \<and> (\<forall>c' \<in> set rest. stage c' \<noteq> Some 1)))"
proof -
  let ?cfg = "config_LoadDefaultConfig region"
  let ?d = "ec2_DescribeNetworkInterfaces (vpc_filter vpcID)"
  let ?goal = "\<lambda>tr. \<forall>c \<in> set tr. (\<exists>n. stage c = Some n \<and> 2 \<le> n) \<longrightarrow>
        (\<exists>enis rest.
           gw_network_interfaces gw (h @ [?cfg]) ?d = Inr enis \<and>
           list_all (\<lambda>eni. Attachment eni \<noteq> None) enis \<and>
           tr = ?cfg # ?d # interface_calls enis @ rest \<and>
           (\<forall>i < length (interface_calls enis).
              gw_unit gw (h @ ?cfg # ?d # take i (interface_calls enis))
                (interface_calls enis ! i) = Inr ()) \<and>
           c \<in> set rest \<and> (\<forall>c' \<in> set rest. stage c' \<noteq> Some 1))"
  from stagedD [OF DeleteVPC_staged run] obtain tr where
    tr: "h' = h @ tr" "sorted (stages tr)" by blast
  have "?goal tr"
    using run unfolding DeleteVPC_def
  proof (cases rule: seq_cases)
    case (Err e)
    then have "tr = [?cfg]" using tr(1) by (auto elim: request_cases)
    then show ?thesis by simp
  next
    case Panic
    then show ?thesis by (auto elim: request_cases)
  next
    case (Ok cfg h1)
    then have h1: "h1 = h @ [?cfg]" by (auto elim: request_cases)
    from Ok(2) show ?thesis
    proof (cases rule: seq_cases)
      case (Err e)
      then have "tr = [?cfg, ?d]" using tr(1) h1 by (auto elim: request_cases)
      then show ?thesis by simp
    next
      case Panic
      then show ?thesis by (auto elim: request_cases)
    next
      case (Ok enis h2)
      then have h2: "h2 = h @ [?cfg, ?d]" and enis: "gw_network_interfaces gw (h @ [?cfg]) ?d = Inr enis"
        using h1 by (auto elim: request_cases)
      from emitsD [OF DeleteVPC_interfaces_emits] obtain t1 r1 h3 where
        t1: "DeleteVPC_interfaces gw enis h2 = (r1, h3)" "h3 = h2 @ t1" "list_all (in_stage 1) t1"
        by (metis surj_pair)
      from Ok(2) show ?thesis
      proof (cases rule: seq_cases)
        case (Ok u h3')
        with t1 have eq: "h3' = h3" "r1 = Ok u" by auto
        from t1(1) eq(2) have ok: "DeleteVPC_interfaces gw enis h2 = (Ok u, h3)" by simp
        from DeleteVPC_interfaces_Ok [OF ok]
        have calls: "h3 = h2 @ interface_calls enis"
          and att: "list_all (\<lambda>eni. Attachment eni \<noteq> None) enis"
          and ans0: "\<forall>i < length (interface_calls enis).
                gw_unit gw (h2 @ take i (interface_calls enis)) (interface_calls enis ! i) = Inr ()"
          by blast+
        from ans0 h2 have ans: "\<forall>i < length (interface_calls enis).
              gw_unit gw (h @ ?cfg # ?d # take i (interface_calls enis))
                (interface_calls enis ! i) = Inr ()"
          by simp
        from stagedD [OF DeleteVPC_network_staged Ok(2)] obtain rest where
          rest: "h' = h3' @ rest" "\<forall>c \<in> set rest. \<forall>n. stage c = Some n \<longrightarrow> 2 \<le> n \<and> n \<le> 6" by blast
        have tr_eq: "tr = ?cfg # ?d # interface_calls enis @ rest"
          using tr(1) rest(1) eq calls h2 by simp
        have no1: "\<forall>c' \<in> set rest. stage c' \<noteq> Some 1" using rest(2) by fastforce
        show ?thesis
        proof (intro ballI impI)
          fix c assume c: "c \<in> set tr" "\<exists>n. stage c = Some n \<and> 2 \<le> n"
          then have "c \<in> set rest" using tr_eq by (auto dest: stage_interface_calls)
          with enis att tr_eq ans no1 show "\<exists>enis rest.
           gw_network_interfaces gw (h @ [?cfg]) ?d = Inr enis \<and>
           list_all (\<lambda>eni. Attachment eni \<noteq> None) enis \<and>
           tr = ?cfg # ?d # interface_calls enis @ rest \<and>
           (\<forall>i < length (interface_calls enis).
              gw_unit gw (h @ ?cfg # ?d # take i (interface_calls enis))
                (interface_calls enis ! i) = Inr ()) \<and>
           c \<in> set rest \<and> (\<forall>c' \<in> set rest. stage c' \<noteq> Some 1)" by blast
        qed
      next
        case (Err e)
        with t1 have "h' = h2 @ t1" by auto
        then have "tr = ?cfg # ?d # t1" using tr(1) h2 by simp
        with t1(3) show ?thesis by (auto simp: in_stage_def list_all_iff)
      next
        case Panic
        with t1 have "h' = h2 @ t1" by auto
        then have "tr = ?cfg # ?d # t1" using tr(1) h2 by simp
        with t1(3) show ?thesis by (auto simp: in_stage_def list_all_iff)
      qed
    qed
  qed
  with tr show ?thesis by blast
qed

section \<open>Interfaces without attachment\<close>

text \<open>
  C10: the interface loop dereferences the attachment without a nil check: when the
  first enumerated interface has no attachment, \<open>DeleteVPC\<close> panics right after the
  describe call, without returning an error and without skipping the interface.
\<close>

theorem DeleteVPC_unattached_interface_panics:
  assumes "gw_unit gw h (config_LoadDefaultConfig region) = Inr ()"
    and "gw_network_interfaces gw (h @ [config_LoadDefaultConfig region])
           (ec2_DescribeNetworkInterfaces (vpc_filter vpcID)) = Inr (eni # rest)"
    and "Attachment eni = None"
  shows "DeleteVPC gw region vpcID h =
           (Panic, h @ [config_LoadDefaultConfig region, ec2_DescribeNetworkInterfaces (vpc_filter vpcID)])"
  using assms by (simp add: DeleteVPC_def seq_def request_def deref_def panic_def)

section \<open>Successful answers without the created resource\<close>

text \<open>
  \<open>CreateVPC\<close>, \<open>CreateSubnet\<close>, \<open>CreateInternetGateway\<close> and \<open>CreateRouteTable\<close> read the
  identifier through the resource pointer of the output with no nil check: a successful
  answer with a nil resource makes them panic right after the request.
\<close>

lemma CreateVPC_nil_Vpc_panics:
  assumes "gw_unit gw h (config_LoadDefaultConfig region) = Inr ()"
    and "gw_created gw (h @ [config_LoadDefaultConfig region])
           (ec2_CreateVpc cidr (createdBy name)) = Inr None"
  shows "CreateVPC gw region cidr name h =
           (Panic, h @ [config_LoadDefaultConfig region, ec2_CreateVpc cidr (createdBy name)])"
  using assms by (simp add: CreateVPC_def seq_def request_def deref_def panic_def)

lemma CreateSubnet_nil_Subnet_panics:
  assumes "gw_unit gw h (config_LoadDefaultConfig region) = Inr ()"
    and "gw_created gw (h @ [config_LoadDefaultConfig region])
           (ec2_CreateSubnet vpcID cidr (region @ azSuffix) (createdBy name)) = Inr None"
  shows "CreateSubnet gw region vpcID cidr name azSuffix h =
           (Panic, h @ [config_LoadDefaultConfig region,
                        ec2_CreateSubnet vpcID cidr (region @ azSuffix) (createdBy name)])"
  using assms by (simp add: CreateSubnet_def seq_def request_def deref_def panic_def)

lemma CreateInternetGateway_nil_InternetGateway_panics:
  assumes "gw_unit gw h (config_LoadDefaultConfig region) = Inr ()"
    and "gw_created gw (h @ [config_LoadDefaultConfig region])
           (ec2_CreateInternetGateway (createdBy name)) = Inr None"
  shows "CreateInternetGateway gw region name vpcID h =
           (Panic, h @ [config_LoadDefaultConfig region, ec2_CreateInternetGateway (createdBy name)])"
  using assms by (simp add: CreateInternetGateway_def seq_def request_def deref_def panic_def)

lemma CreateRouteTable_nil_RouteTable_panics:
  assumes "gw_unit gw h (config_LoadDefaultConfig region) = Inr ()"
    and "gw_created gw (h @ [config_LoadDefaultConfig region])
           (ec2_CreateRouteTable vpcID (createdBy name)) = Inr None"
  shows "CreateRouteTable gw region vpcID name h =
           (Panic, h @ [config_LoadDefaultConfig region, ec2_CreateRouteTable vpcID (createdBy name)])"
  using assms by (simp add: CreateRouteTable_def seq_def request_def deref_def panic_def)

section \<open>The main route table and the default security group\<close>

lemma run_inv_mono:
  assumes "run_inv Q m" and "\<And>h tr. Q h tr \<Longrightarrow> Q' h tr"
  shows "run_inv Q' m"
  unfolding run_inv_def
proof
  fix h
  from assms(1) obtain tr where "snd (m h) = h @ tr" "Q h tr"
    unfolding run_inv_def by blast
  with assms(2) show "\<exists>tr. snd (m h) = h @ tr \<and> Q' h tr" by blast
qed

lemma guarded_append: "guarded gw h (xs @ ys) = (guarded gw h xs \<and> guarded gw (h @ xs) ys)"
  by (induction xs arbitrary: h) auto

lemma permitted_other: "stage c \<noteq> Some 4 \<Longrightarrow> stage c \<noteq> Some 5 \<Longrightarrow> permitted gw h c"
  by (cases c) (auto simp: permitted_def)

lemma guarded_other: "list_all (\<lambda>c. stage c \<noteq> Some 4 \<and> stage c \<noteq> Some 5) tr \<Longrightarrow> guarded gw h tr"
  by (induction tr arbitrary: h) (auto simp: permitted_other)

lemma emits_guarded_run:
  "emits (\<lambda>c. stage c \<noteq> Some 4 \<and> stage c \<noteq> Some 5) m \<Longrightarrow> guarded_run gw m"
  unfolding emits_def guarded_run_def by (erule run_inv_mono) (rule guarded_other)

lemma emits_read_only_guarded: "emits read_only m \<Longrightarrow> guarded_run gw m"
  by (rule emits_guarded_run, erule emits_mono) (simp add: read_only_stage)

lemma emits_in_stage_guarded: "emits (in_stage n) m \<Longrightarrow> n \<noteq> 4 \<Longrightarrow> n \<noteq> 5 \<Longrightarrow> guarded_run gw m"
  by (rule emits_guarded_run, erule emits_mono) (auto simp: in_stage_def)

lemma guarded_run_seq:
  "guarded_run gw m \<Longrightarrow> (\<And>x. guarded_run gw (k x)) \<Longrightarrow> guarded_run gw (seq m wrap k)"
  unfolding guarded_run_def
  by (rule run_inv_seq [where ?Q1.0 = "guarded gw" and ?Q2.0 = "guarded gw"])
     (auto simp: guarded_append)

lemma guarded_run_ret: "guarded_run gw (ret x)"
  by (simp add: guarded_run_def run_inv_ret)

lemma guarded_runD: "guarded_run gw m \<Longrightarrow> m h = (r, h') \<Longrightarrow> \<exists>tr. h' = h @ tr \<and> guarded gw h tr"
  unfolding guarded_run_def by (rule run_invD)

lemma guarded_runI: "(\<And>h r h'. m h = (r, h') \<Longrightarrow> \<exists>tr. h' = h @ tr \<and> guarded gw h tr) \<Longrightarrow> guarded_run gw m"
  unfolding guarded_run_def run_inv_def by (metis prod.collapse)

lemma DeleteVPC_routeTables_guarded: "guarded_run gw (DeleteVPC_routeTables gw routeTables)"
proof (induction routeTables)
  case Nil
  show ?case by (simp add: guarded_run_ret)
next
  case (Cons rtbID rest)
  let ?d = "ec2_DescribeRouteTables (Ids [rtbID])"
  let ?x = "ec2_DeleteRouteTable rtbID"
  show ?case
  proof (rule guarded_runI)
    fix h r h'
    assume run: "DeleteVPC_routeTables gw (rtbID # rest) h = (r, h')"
    show "\<exists>tr. h' = h @ tr \<and> guarded gw h tr"
    proof (cases "gw_route_tables gw h ?d")
      case (Inl e)
      with run have "h' = h @ [?d]" by (simp add: seq_def request_def)
      then show ?thesis by (simp add: permitted_def)
    next
      case (Inr tables)
      show ?thesis
      proof (cases tables)
        case Nil
        with run Inr have "h' = h @ [?d]" by (simp add: seq_def request_def panic_def)
        then show ?thesis by (simp add: permitted_def)
      next
        case (Cons rtb others)
        show ?thesis
        proof (cases "isMainRouteTable rtb")
          case True
          with run Inr Cons have "DeleteVPC_routeTables gw rest (h @ [?d]) = (r, h')"
            by (simp add: seq_def request_def)
          from guarded_runD [OF Cons.IH this] obtain tr where "h' = (h @ [?d]) @ tr" "guarded gw (h @ [?d]) tr"
            by blast
          then have "h' = h @ (?d # tr) \<and> guarded gw h (?d # tr)" by (simp add: permitted_def)
          then show ?thesis by blast
        next
          case False
          then have ok: "permitted gw (h @ [?d]) ?x"
            using Inr Cons by (simp add: permitted_def described_main_def)
          show ?thesis
          proof (cases "gw_unit gw (h @ [?d]) ?x")
            case (Inl e)
            with run Inr Cons False have "h' = h @ [?d, ?x]" by (simp add: seq_def request_def)
            with ok show ?thesis by (simp add: permitted_def)
          next
            case (Inr u)
            with run \<open>gw_route_tables gw h ?d = Inr tables\<close> Cons False
            have "DeleteVPC_routeTables gw rest (h @ [?d, ?x]) = (r, h')"
              by (simp add: seq_def request_def)
            from guarded_runD [OF Cons.IH this] obtain tr where
              "h' = (h @ [?d, ?x]) @ tr" "guarded gw (h @ [?d, ?x]) tr" by blast
            with ok have "h' = h @ (?d # ?x # tr) \<and> guarded gw h (?d # ?x # tr)"
              by (simp add: permitted_def)
            then show ?thesis by blast
          qed
        qed
      qed
    qed
  qed
qed

lemma DeleteVPC_securityGroups_guarded: "guarded_run gw (DeleteVPC_securityGroups gw securityGroups)"
proof (induction securityGroups)
  case Nil
  show ?case by (simp add: guarded_run_ret)
next
  case (Cons sgID rest)
  let ?d = "ec2_DescribeSecurityGroups (Ids [sgID])"
  let ?x = "ec2_DeleteSecurityGroup sgID"
  note defs = seq_def request_def isDefault_def deref_def ret_def panic_def
  show ?case
  proof (rule guarded_runI)
    fix h r h'
    assume run: "DeleteVPC_securityGroups gw (sgID # rest) h = (r, h')"
    have skip: "\<exists>tr. h' = h @ tr \<and> guarded gw h tr"
      if "DeleteVPC_securityGroups gw rest (h @ [?d]) = (r, h')"
    proof -
      from guarded_runD [OF Cons.IH that] obtain tr where
        "h' = (h @ [?d]) @ tr" "guarded gw (h @ [?d]) tr" by blast
      then have "h' = h @ (?d # tr) \<and> guarded gw h (?d # tr)" by (simp add: permitted_def)
      then show ?thesis by blast
    qed
    have delete: "\<exists>tr. h' = h @ tr \<and> guarded gw h tr"
      if ok: "\<not> described_default gw h sgID"
        and step: "seq (request (gw_unit gw) ?x)
                 (Errorf (''unable to delete security group '' @ sgID @ '': ''))
                 (\<lambda>u. DeleteVPC_securityGroups gw rest) (h @ [?d]) = (r, h')"
    proof -
      from ok have p: "permitted gw (h @ [?d]) ?x" by (simp add: permitted_def)
      show ?thesis
      proof (cases "gw_unit gw (h @ [?d]) ?x")
        case (Inl e)
        with step have "h' = h @ [?d, ?x]" by (simp add: seq_def request_def)
        with p show ?thesis by (simp add: permitted_def)
      next
        case (Inr u)
        with step have "DeleteVPC_securityGroups gw rest (h @ [?d, ?x]) = (r, h')"
          by (simp add: seq_def request_def)
        from guarded_runD [OF Cons.IH this] obtain tr where
          "h' = (h @ [?d, ?x]) @ tr" "guarded gw (h @ [?d, ?x]) tr" by blast
        with p have "h' = h @ (?d # ?x # tr) \<and> guarded gw h (?d # ?x # tr)"
          by (simp add: permitted_def)
        then show ?thesis by blast
      qed
    qed
    show "\<exists>tr. h' = h @ tr \<and> guarded gw h tr"
    proof (cases "gw_security_groups gw h ?d")
      case (Inl e)
      with run have "h' = h @ [?d]" by (simp add: defs)
      then show ?thesis by (simp add: permitted_def)
    next
      case (Inr groups)
      show ?thesis
      proof (cases groups)
        case Nil
        with Inr have "\<not> described_default gw h sgID" by (simp add: described_default_def)
        moreover from run Inr Nil have "seq (request (gw_unit gw) ?x)
                 (Errorf (''unable to delete security group '' @ sgID @ '': ''))
                 (\<lambda>u. DeleteVPC_securityGroups gw rest) (h @ [?d]) = (r, h')"
          by (simp add: defs)
        ultimately show ?thesis by (rule delete)
      next
        case (Cons sg others)
        show ?thesis
        proof (cases "GroupName sg")
          case None
          with run Inr Cons have "h' = h @ [?d]" by (simp add: defs)
          then show ?thesis by (simp add: permitted_def)
        next
          case (Some name)
          show ?thesis
          proof (cases "name = ''default''")
            case True
            with run Inr Cons Some have "DeleteVPC_securityGroups gw rest (h @ [?d]) = (r, h')"
              by (simp add: defs)
            then show ?thesis by (rule skip)
          next
            case False
            with Inr Cons Some have "\<not> described_default gw h sgID"
              by (simp add: described_default_def)
            moreover from run Inr Cons Some False have "seq (request (gw_unit gw) ?x)
                 (Errorf (''unable to delete security group '' @ sgID @ '': ''))
                 (\<lambda>u. DeleteVPC_securityGroups gw rest) (h @ [?d]) = (r, h')"
              by (simp add: defs)
            ultimately show ?thesis by (rule delete)
          qed
        qed
      qed
    qed
  qed
qed

lemma guarded_run_request:
  "stage c \<noteq> Some 4 \<Longrightarrow> stage c \<noteq> Some 5 \<Longrightarrow> guarded_run gw (request answer c)"
  by (simp add: guarded_run_def run_inv_request permitted_other)

lemma DeleteVPC_network_guarded: "guarded_run gw (DeleteVPC_network gw region vpcID)"
  unfolding DeleteVPC_network_def
  apply (rule guarded_run_seq, rule guarded_run_request, simp, simp)
  apply (rule guarded_run_seq, rule emits_read_only_guarded [OF ListInternetGateways_emits])
  apply (rule guarded_run_seq, rule emits_in_stage_guarded [OF DeleteVPC_gateways_emits], simp, simp)
  apply (rule guarded_run_seq, rule emits_read_only_guarded [OF ListSubnets_emits])
  apply (rule guarded_run_seq, rule emits_in_stage_guarded [OF DeleteVPC_subnets_emits], simp, simp)
  apply (rule guarded_run_seq, rule emits_read_only_guarded [OF ListRouteTables_emits])
  apply (rule guarded_run_seq, rule DeleteVPC_routeTables_guarded)
  apply (rule guarded_run_seq, rule emits_read_only_guarded [OF ListSecurityGroups_emits])
  apply (rule guarded_run_seq, rule DeleteVPC_securityGroups_guarded)
  apply (rule guarded_run_seq, rule guarded_run_request, simp, simp)
  apply (rule guarded_run_ret)
  done

lemma DeleteVPC_guarded: "guarded_run gw (DeleteVPC gw region vpcID)"
  unfolding DeleteVPC_def
  apply (rule guarded_run_seq, rule guarded_run_request, simp, simp)
  apply (rule guarded_run_seq, rule guarded_run_request, simp, simp)
  apply (rule guarded_run_seq, rule emits_in_stage_guarded [OF DeleteVPC_interfaces_emits], simp, simp)
  apply (rule DeleteVPC_network_guarded)
  done

lemma permitted_routeTableD:
  assumes "permitted gw H (ec2_DeleteRouteTable rtbID)"
  shows "\<exists>before. H = before @ [ec2_DescribeRouteTables (Ids [rtbID])] \<and> \<not> described_main gw before rtbID"
proof -
  from assms have "H \<noteq> []" "last H = ec2_DescribeRouteTables (Ids [rtbID])"
    "\<not> described_main gw (butlast H) rtbID" by (simp_all add: permitted_def)
  then show ?thesis by (metis append_butlast_last_id)
qed

lemma permitted_securityGroupD:
  assumes "permitted gw H (ec2_DeleteSecurityGroup sgID)"
  shows "\<exists>before. H = before @ [ec2_DescribeSecurityGroups (Ids [sgID])] \<and> \<not> described_default gw before sgID"
proof -
  from assms have "H \<noteq> []" "last H = ec2_DescribeSecurityGroups (Ids [sgID])"
    "\<not> described_default gw (butlast H) sgID" by (simp_all add: permitted_def)
  then show ?thesis by (metis append_butlast_last_id)
qed

lemma DeleteVPC_permitted:
  assumes run: "DeleteVPC gw region vpcID h = (r, h')" and eq: "h' = h @ pre @ c # post"
  shows "permitted gw (h @ pre) c"
proof -
  from guarded_runD [OF DeleteVPC_guarded run] obtain tr where tr: "h' = h @ tr" "guarded gw h tr"
    by blast
  from tr(1) eq have "tr = pre @ c # post" by simp
  with tr(2) show ?thesis by (simp add: guarded_append)
qed

text \<open>
  C4: in every run of \<open>DeleteVPC\<close>, each \<open>DeleteRouteTable\<close> call directly follows the
  \<open>DescribeRouteTables\<close> call for the same table, whose answer showed no main
  association, and each \<open>DeleteSecurityGroup\<close> call directly follows the
  \<open>DescribeSecurityGroups\<close> call for the same group, whose answer did not name it
  \<open>default\<close>. A table described as main and a group described as default are skipped:
  the loop goes on with the remaining identifiers and issues no delete call for them.
\<close>

theorem DeleteVPC_skips_main_and_default:
  "(DeleteVPC gw region vpcID h = (r, h') \<longrightarrow>
      (\<forall>pre rtbID post. h' = h @ pre @ ec2_DeleteRouteTable rtbID # post \<longrightarrow>
         (\<exists>before. h @ pre = before @ [ec2_DescribeRouteTables (Ids [rtbID])] \<and>
                   \<not> described_main gw before rtbID)) \<and>
      (\<forall>pre sgID post. h' = h @ pre @ ec2_DeleteSecurityGroup sgID # post \<longrightarrow>
         (\<exists>before. h @ pre = before @ [ec2_DescribeSecurityGroups (Ids [sgID])] \<and>
                   \<not> described_default gw before sgID))) \<and>
   (described_main gw h rtbID \<longrightarrow>
      DeleteVPC_routeTables gw (rtbID # rtbs) h =
        DeleteVPC_routeTables gw rtbs (h @ [ec2_DescribeRouteTables (Ids [rtbID])])) \<and>
   (described_default gw h sgID \<longrightarrow>
      DeleteVPC_securityGroups gw (sgID # sgs) h =
        DeleteVPC_securityGroups gw sgs (h @ [ec2_DescribeSecurityGroups (Ids [sgID])]))"
proof (intro conjI impI allI)
  fix pre rtbID post
  assume "DeleteVPC gw region vpcID h = (r, h')"
    and "h' = h @ pre @ ec2_DeleteRouteTable rtbID # post"
  then have "permitted gw (h @ pre) (ec2_DeleteRouteTable rtbID)" by (rule DeleteVPC_permitted)
  then show "\<exists>before. h @ pre = before @ [ec2_DescribeRouteTables (Ids [rtbID])] \<and>
                   \<not> described_main gw before rtbID"
    by (rule permitted_routeTableD)
next
  fix pre sgID post
  assume "DeleteVPC gw region vpcID h = (r, h')"
    and "h' = h @ pre @ ec2_DeleteSecurityGroup sgID # post"
  then have "permitted gw (h @ pre) (ec2_DeleteSecurityGroup sgID)" by (rule DeleteVPC_permitted)
  then show "\<exists>before. h @ pre = before @ [ec2_DescribeSecurityGroups (Ids [sgID])] \<and>
                   \<not> described_default gw before sgID"
    by (rule permitted_securityGroupD)
next
  assume "described_main gw h rtbID"
  then show "DeleteVPC_routeTables gw (rtbID # rtbs) h =
        DeleteVPC_routeTables gw rtbs (h @ [ec2_DescribeRouteTables (Ids [rtbID])])"
    by (auto simp: described_main_def seq_def request_def split: sum.splits list.splits)
next
  assume "described_default gw h sgID"
  then show "DeleteVPC_securityGroups gw (sgID # sgs) h =
        DeleteVPC_securityGroups gw sgs (h @ [ec2_DescribeSecurityGroups (Ids [sgID])])"
    by (auto simp: described_default_def seq_def request_def isDefault_def deref_def ret_def
             split: sum.splits list.splits)
qed

section \<open>The teardown of an example network\<close>

lemmas run_defs = seq_def attempt_def discard_def deref_def request_def ret_def fail_def panic_def
  unwrapped_def ask_string_def ask_bool_def ask_strings_def aws_ToString_def Errorf_def

lemmas fixture_defs = gw_base_def operator_string_def fixture_created_def fixture_id_def fixture_ids_def
  fixture_route_tables_def fixture_security_groups_def fixture_route_table_def
  fixture_security_group_def

lemmas teardown_defs = DeleteVPC_def DeleteVPC_network_def ListInternetGateways_def ListSubnets_def
  ListRouteTables_def ListSecurityGroups_def vpc_filter_def isDefault_def isMainRouteTable_def

lemma teardown_run:
  "DeleteVPC (gw_base ''Delete Cluster'') ''eu-west-2'' ''vpc-1'' [] = (Ok (), teardown_trace)"
  by (simp add: teardown_defs run_defs fixture_defs teardown_trace_def)

theorem DeleteVPC_order_witness:
  "DeleteVPC (gw_base ''Delete Cluster'') ''eu-west-2'' ''vpc-1'' [] = (Ok (), teardown_trace) \<and>
   stages teardown_trace = [1, 1, 2, 2, 3, 3, 4, 5, 6] \<and>
   (\<exists>tr. teardown_trace = [] @ tr \<and> sorted (stages tr) \<and>
     (\<forall>c \<in> set tr. (\<exists>n. stage c = Some n \<and> 2 \<le> n) \<longrightarrow>
        (\<exists>enis rest.
           gw_network_interfaces (gw_base ''Delete Cluster'') ([] @ [config_LoadDefaultConfig ''eu-west-2''])
             (ec2_DescribeNetworkInterfaces (vpc_filter ''vpc-1'')) = Inr enis \<and>
           list_all (\<lambda>eni. Attachment eni \<noteq> None) enis \<and>
           tr = config_LoadDefaultConfig ''eu-west-2'' # ec2_DescribeNetworkInterfaces (vpc_filter ''vpc-1'') #
                  interface_calls enis @ rest \<and>
           (\<forall>i < length (interface_calls enis).
              gw_unit (gw_base ''Delete Cluster'')
                ([] @ config_LoadDefaultConfig ''eu-west-2'' #
                   ec2_DescribeNetworkInterfaces (vpc_filter ''vpc-1'') # take i (interface_calls enis))
                (interface_calls enis ! i) = Inr ()) \<and>
           c \<in> set rest \<and> (\<forall>c' \<in> set rest. stage c' \<noteq> Some 1))))"
proof -
  have st: "stages teardown_trace = [1, 1, 2, 2, 3, 3, 4, 5, 6]"
    by (simp add: teardown_trace_def)
  from teardown_run st DeleteVPC_order [OF teardown_run] show ?thesis by (intro conjI)
qed

text \<open>
  Against a gateway that refuses to detach the interface, \<open>DeleteVPC\<close> returns the error
  right after the refused call: nothing of a later stage is issued.
\<close>

lemma DeleteVPC_stops_at_failed_detach:
  "DeleteVPC gw_detach_fails ''eu-west-2'' ''vpc-1'' [] =
     (Err (ErrorString ''unable to detach network interface eni-1: OperationNotPermitted''),
      [config_LoadDefaultConfig ''eu-west-2'',
       ec2_DescribeNetworkInterfaces (Filter ''vpc-id'' [''vpc-1'']),
       ec2_DetachNetworkInterface (Some ''eni-attach-1'') True])"
  by (simp add: teardown_defs run_defs gw_detach_fails_def fixture_defs)

theorem DeleteVPC_skips_main_and_default_witness:
  "DeleteVPC (gw_base ''Delete Cluster'') ''eu-west-2'' ''vpc-1'' [] = (Ok (), teardown_trace) \<and>
   described_main (gw_base ''Delete Cluster'') [] ''rtb-main'' \<and>
   described_default (gw_base ''Delete Cluster'') [] ''sg-default'' \<and>
   ec2_DeleteRouteTable ''rtb-main'' \<notin> set teardown_trace \<and>
   ec2_DeleteSecurityGroup ''sg-default'' \<notin> set teardown_trace \<and>
   ec2_DeleteRouteTable ''rtb-1'' \<in> set teardown_trace \<and>
   ec2_DeleteSecurityGroup ''sg-1'' \<in> set teardown_trace \<and>
   (\<exists>before. [] @ take 17 teardown_trace = before @ [ec2_DescribeRouteTables (Ids [''rtb-1''])] \<and>
              \<not> described_main (gw_base ''Delete Cluster'') before ''rtb-1'') \<and>
   (\<exists>before. [] @ take 22 teardown_trace = before @ [ec2_DescribeSecurityGroups (Ids [''sg-1''])] \<and>
              \<not> described_default (gw_base ''Delete Cluster'') before ''sg-1'') \<and>
   DeleteVPC_routeTables (gw_base ''Delete Cluster'') [''rtb-main'', ''rtb-1''] [] =
     DeleteVPC_routeTables (gw_base ''Delete Cluster'') [''rtb-1'']
       [ec2_DescribeRouteTables (Ids [''rtb-main''])] \<and>
   DeleteVPC_securityGroups (gw_base ''Delete Cluster'') [''sg-default'', ''sg-1''] [] =
     DeleteVPC_securityGroups (gw_base ''Delete Cluster'') [''sg-1'']
       [ec2_DescribeSecurityGroups (Ids [''sg-default''])]"
proof -
  let ?gw = "gw_base ''Delete Cluster''"
  note inst = DeleteVPC_skips_main_and_default [where gw = "?gw" and region = "''eu-west-2''"
      and vpcID = "''vpc-1''" and h = "[]" and r = "Ok ()" and h' = teardown_trace
      and rtbID = "''rtb-main''" and rtbs = "[''rtb-1'']" and sgID = "''sg-default''"
      and sgs = "[''sg-1'']"]
  have m: "described_main ?gw [] ''rtb-main''"
    by (simp add: described_main_def fixture_defs isMainRouteTable_def)
  have d: "described_default ?gw [] ''sg-default''"
    by (simp add: described_default_def fixture_defs)
  have rt: "teardown_trace = [] @ take 17 teardown_trace @ ec2_DeleteRouteTable ''rtb-1'' # drop 18 teardown_trace"
    by (simp add: teardown_trace_def)
  have sg: "teardown_trace = [] @ take 22 teardown_trace @ ec2_DeleteSecurityGroup ''sg-1'' # drop 23 teardown_trace"
    by (simp add: teardown_trace_def)
  have mem: "ec2_DeleteRouteTable ''rtb-main'' \<notin> set teardown_trace"
    "ec2_DeleteSecurityGroup ''sg-default'' \<notin> set teardown_trace"
    "ec2_DeleteRouteTable ''rtb-1'' \<in> set teardown_trace"
    "ec2_DeleteSecurityGroup ''sg-1'' \<in> set teardown_trace"
    by (simp_all add: teardown_trace_def)
  from inst teardown_run have
    rtI: "\<And>pre rtbID post. teardown_trace = [] @ pre @ ec2_DeleteRouteTable rtbID # post \<Longrightarrow>
           \<exists>before. [] @ pre = before @ [ec2_DescribeRouteTables (Ids [rtbID])] \<and>
                    \<not> described_main ?gw before rtbID"
    and sgI: "\<And>pre sgID post. teardown_trace = [] @ pre @ ec2_DeleteSecurityGroup sgID # post \<Longrightarrow>
           \<exists>before. [] @ pre = before @ [ec2_DescribeSecurityGroups (Ids [sgID])] \<and>
                    \<not> described_default ?gw before sgID"
    by blast+
  from inst m have skip_rt: "DeleteVPC_routeTables ?gw [''rtb-main'', ''rtb-1''] [] =
     DeleteVPC_routeTables ?gw [''rtb-1''] [ec2_DescribeRouteTables (Ids [''rtb-main''])]"
    by simp
  from inst d have skip_sg: "DeleteVPC_securityGroups ?gw [''sg-default'', ''sg-1''] [] =
     DeleteVPC_securityGroups ?gw [''sg-1''] [ec2_DescribeSecurityGroups (Ids [''sg-default''])]"
    by simp
  from teardown_run m d mem rtI [OF rt] sgI [OF sg] skip_rt skip_sg show ?thesis
    by (intro conjI)
qed

theorem DeleteVPC_unattached_interface_panics_witness:
  "gw_unit gw_unattached [] (config_LoadDefaultConfig ''eu-west-2'') = Inr () \<and>
   gw_network_interfaces gw_unattached ([] @ [config_LoadDefaultConfig ''eu-west-2''])
     (ec2_DescribeNetworkInterfaces (vpc_filter ''vpc-1'')) =
       Inr (\<lparr> Attachment = None, NetworkInterfaceId = Some ''eni-1'' \<rparr> # []) \<and>
   Attachment \<lparr> Attachment = None, NetworkInterfaceId = Some ''eni-1'' \<rparr> = None \<and>
   DeleteVPC gw_unattached ''eu-west-2'' ''vpc-1'' [] =
     (Panic, [] @ [config_LoadDefaultConfig ''eu-west-2'',
                   ec2_DescribeNetworkInterfaces (vpc_filter ''vpc-1'')])"
proof -
  have a: "gw_unit gw_unattached [] (config_LoadDefaultConfig ''eu-west-2'') = Inr ()"
    by (simp add: gw_unattached_def gw_base_def)
  have b: "gw_network_interfaces gw_unattached ([] @ [config_LoadDefaultConfig ''eu-west-2''])
     (ec2_DescribeNetworkInterfaces (vpc_filter ''vpc-1'')) =
       Inr (\<lparr> Attachment = None, NetworkInterfaceId = Some ''eni-1'' \<rparr> # [])"
    by (simp add: gw_unattached_def gw_base_def)
  have c: "Attachment \<lparr> Attachment = None, NetworkInterfaceId = Some ''eni-1'' \<rparr> = None"
    by simp
  from a b c DeleteVPC_unattached_interface_panics [OF a b c] show ?thesis by (intro conjI)
qed

section \<open>The Tag Guard\<close>

lemma CheckClusterTag_cases:
  "CheckClusterTag gw region clusterName tagName tagValue h =
    (case gw_unit gw h (config_LoadDefaultConfig region) of
       Inl e \<Rightarrow> (Err (Errorf ''unable to load AWS configuration: '' e), h @ [config_LoadDefaultConfig region])
     | Inr u \<Rightarrow>
        (case gw_cluster gw (h @ [config_LoadDefaultConfig region]) (eks_DescribeCluster clusterName) of
           Inl e \<Rightarrow> (Err (Errorf ''failed to describe EKS cluster: '' e),
                      h @ [config_LoadDefaultConfig region, eks_DescribeCluster clusterName])
         | Inr None \<Rightarrow> (Panic, h @ [config_LoadDefaultConfig region, eks_DescribeCluster clusterName])
         | Inr (Some cluster) \<Rightarrow>
             (Ok (case Tags cluster of None \<Rightarrow> False | Some tags \<Rightarrow> tags tagName = Some tagValue),
              h @ [config_LoadDefaultConfig region, eks_DescribeCluster clusterName])))"
  by (simp add: CheckClusterTag_def seq_def request_def ret_def panic_def split: sum.splits option.splits)

text \<open>
  C7, as stated, fails: the claim says that an error is returned only when the describe
  call itself fails. When loading the client configuration fails, \<open>CheckClusterTag\<close>
  returns an error although no describe call is issued (and the describe call would have
  succeeded).
\<close>

theorem CheckClusterTag_config_error_counterexample:
  "CheckClusterTag gw_config_fails ''eu-west-2'' ''Sandbox-demo'' ''CreatedBy'' ''EKS-Sandbox-Tool'' [] =
     (Err (ErrorString ''unable to load AWS configuration: no credentials''),
      [config_LoadDefaultConfig ''eu-west-2'']) \<and>
   \<not> isl (gw_cluster gw_config_fails [config_LoadDefaultConfig ''eu-west-2'']
            (eks_DescribeCluster ''Sandbox-demo''))"
  by (simp add: CheckClusterTag_cases gw_config_fails_def gw_base_def Errorf_def)

text \<open>
  C7, amended: \<open>CheckClusterTag\<close> returns true exactly when the configuration loads, the
  describe call succeeds and the cluster's tag set holds the key with exactly the expected
  value; a missing tag set, a missing key or another value yields false with no error; an
  error is returned exactly when loading the configuration or the describe call fails; and
  every call issued is read-only.
\<close>

theorem CheckClusterTag_guard:
  assumes run: "CheckClusterTag gw region clusterName tagName tagValue h = (r, h')"
  shows "(r = Ok True \<longleftrightarrow>
            gw_unit gw h (config_LoadDefaultConfig region) = Inr () \<and>
            (\<exists>cluster tags.
               gw_cluster gw (h @ [config_LoadDefaultConfig region]) (eks_DescribeCluster clusterName) =
                 Inr (Some cluster) \<and>
               Tags cluster = Some tags \<and> tags tagName = Some tagValue)) \<and>
         (\<forall>cluster.
            gw_unit gw h (config_LoadDefaultConfig region) = Inr () \<and>
            gw_cluster gw (h @ [config_LoadDefaultConfig region]) (eks_DescribeCluster clusterName) =
              Inr (Some cluster) \<and>
            (Tags cluster = None \<or> (\<exists>tags. Tags cluster = Some tags \<and> tags tagName \<noteq> Some tagValue))
            \<longrightarrow> r = Ok False) \<and>
         ((\<exists>e. r = Err e) \<longleftrightarrow>
            (\<exists>e. gw_unit gw h (config_LoadDefaultConfig region) = Inl e) \<or>
            (gw_unit gw h (config_LoadDefaultConfig region) = Inr () \<and>
             (\<exists>e. gw_cluster gw (h @ [config_LoadDefaultConfig region]) (eks_DescribeCluster clusterName) =
                    Inl e))) \<and>
         (\<exists>tr. h' = h @ tr \<and> list_all read_only tr)"
proof -
  have ro: "\<exists>tr. h' = h @ tr \<and> list_all read_only tr"
    using emitsD [OF CheckClusterTag_emits run] .
  show ?thesis
  proof (cases "gw_unit gw h (config_LoadDefaultConfig region)")
    case (Inl e)
    with run ro show ?thesis by (auto simp: CheckClusterTag_cases)
  next
    case (Inr u)
    show ?thesis
    proof (cases "gw_cluster gw (h @ [config_LoadDefaultConfig region]) (eks_DescribeCluster clusterName)")
      case (Inl e)
      with run ro Inr show ?thesis by (auto simp: CheckClusterTag_cases)
    next
      case answer: (Inr out)
      show ?thesis
      proof (cases out)
        case None
        with run ro Inr answer show ?thesis by (auto simp: CheckClusterTag_cases)
      next
        case (Some cluster)
        with run ro Inr answer show ?thesis
          by (cases "Tags cluster") (auto simp: CheckClusterTag_cases)
      qed
    qed
  qed
qed

theorem CheckClusterTag_guard_witness:
  "CheckClusterTag (gw_base ''Delete Cluster'') ''eu-west-2'' ''Sandbox-demo'' ''CreatedBy''
     ''EKS-Sandbox-Tool'' [] =
     (Ok True, [config_LoadDefaultConfig ''eu-west-2'', eks_DescribeCluster ''Sandbox-demo'']) \<and>
   CheckClusterTag (gw_base ''Delete Cluster'') ''eu-west-2'' ''Sandbox-demo'' ''HostingVPC''
     ''isolated'' [] =
     (Ok False, [config_LoadDefaultConfig ''eu-west-2'', eks_DescribeCluster ''Sandbox-demo'']) \<and>
   (\<exists>tr. [config_LoadDefaultConfig ''eu-west-2'', eks_DescribeCluster ''Sandbox-demo''] = [] @ tr \<and>
         list_all read_only tr)"
proof -
  have a: "CheckClusterTag (gw_base ''Delete Cluster'') ''eu-west-2'' ''Sandbox-demo'' ''CreatedBy''
     ''EKS-Sandbox-Tool'' [] =
     (Ok True, [config_LoadDefaultConfig ''eu-west-2'', eks_DescribeCluster ''Sandbox-demo''])"
    by (simp add: CheckClusterTag_cases gw_base_def)
  have b: "CheckClusterTag (gw_base ''Delete Cluster'') ''eu-west-2'' ''Sandbox-demo'' ''HostingVPC''
     ''isolated'' [] =
     (Ok False, [config_LoadDefaultConfig ''eu-west-2'', eks_DescribeCluster ''Sandbox-demo''])"
    by (simp add: CheckClusterTag_cases gw_base_def)
  from CheckClusterTag_guard [OF a] have
    "\<exists>tr. [config_LoadDefaultConfig ''eu-west-2'', eks_DescribeCluster ''Sandbox-demo''] = [] @ tr \<and>
         list_all read_only tr" by blast
  with a b show ?thesis by (intro conjI)
qed

section \<open>The role-ensuring step\<close>

text \<open>
  C6: when the create-role call fails with the entity-already-exists condition,
  \<open>IamOperations\<close> goes on to the policy attachments exactly as after a successful creation,
  and returns nil when both attachments succeed; for every other create-role failure it
  returns an error without attaching anything.
\<close>

theorem IamOperations_tolerates_existing_role:
  assumes cfg: "gw_unit gw h (config_LoadDefaultConfig region) = Inr ()"
    and create: "gw_unit gw (h @ [config_LoadDefaultConfig region])
                   (iam_CreateRole roleName assumeRolePolicy) = Inl err"
  shows "(errors_As_EntityAlreadyExists err \<longrightarrow>
            IamOperations gw region roleName h =
              attachPolicies gw roleName policies
                (h @ [config_LoadDefaultConfig region, iam_CreateRole roleName assumeRolePolicy]) \<and>
            (gw_unit gw (h @ [config_LoadDefaultConfig region, iam_CreateRole roleName assumeRolePolicy])
               (iam_AttachRolePolicy roleName ''arn:aws:iam::aws:policy/AmazonEKSClusterPolicy'') = Inr () \<and>
             gw_unit gw (h @ [config_LoadDefaultConfig region, iam_CreateRole roleName assumeRolePolicy,
                              iam_AttachRolePolicy roleName ''arn:aws:iam::aws:policy/AmazonEKSClusterPolicy''])
               (iam_AttachRolePolicy roleName ''arn:aws:iam::aws:policy/AmazonEKSVPCResourceController'') = Inr ()
             \<longrightarrow>
             IamOperations gw region roleName h =
               (Ok (), h @ [config_LoadDefaultConfig region, iam_CreateRole roleName assumeRolePolicy,
                  iam_AttachRolePolicy roleName ''arn:aws:iam::aws:policy/AmazonEKSClusterPolicy'',
                  iam_AttachRolePolicy roleName ''arn:aws:iam::aws:policy/AmazonEKSVPCResourceController'']))) \<and>
         (\<not> errors_As_EntityAlreadyExists err \<longrightarrow>
            IamOperations gw region roleName h =
              (Err (Errorf (''failed to create role '' @ roleName @ '': '') err),
               h @ [config_LoadDefaultConfig region, iam_CreateRole roleName assumeRolePolicy]))"
proof -
  let ?h2 = "h @ [config_LoadDefaultConfig region, iam_CreateRole roleName assumeRolePolicy]"
  have exists: "IamOperations gw region roleName h = attachPolicies gw roleName policies ?h2"
    if "errors_As_EntityAlreadyExists err"
    using that cfg create by (simp add: IamOperations_def seq_def attempt_def request_def)
  have other: "IamOperations gw region roleName h =
      (Err (Errorf (''failed to create role '' @ roleName @ '': '') err), ?h2)"
    if "\<not> errors_As_EntityAlreadyExists err"
    using that cfg create by (simp add: IamOperations_def seq_def attempt_def request_def fail_def)
  have attach: "attachPolicies gw roleName policies ?h2 =
      (Ok (), ?h2 @ [iam_AttachRolePolicy roleName ''arn:aws:iam::aws:policy/AmazonEKSClusterPolicy'',
                     iam_AttachRolePolicy roleName ''arn:aws:iam::aws:policy/AmazonEKSVPCResourceController''])"
    if "gw_unit gw ?h2
          (iam_AttachRolePolicy roleName ''arn:aws:iam::aws:policy/AmazonEKSClusterPolicy'') = Inr ()"
      and "gw_unit gw (?h2 @ [iam_AttachRolePolicy roleName ''arn:aws:iam::aws:policy/AmazonEKSClusterPolicy''])
          (iam_AttachRolePolicy roleName ''arn:aws:iam::aws:policy/AmazonEKSVPCResourceController'') = Inr ()"
    using that by (simp add: policies_def seq_def request_def ret_def)
  from exists other attach show ?thesis by simp
qed

lemmas create_defs = main_def main_create_def main_create_resources_def action_prompt_def
  GetLatestEKSVersion_def getLatestVersion_def GetAWSAccountDetails_def
  IamOperations_def policies_def CreateVPC_def CreateSubnet_def EnableAutoAssignPublicIP_def
  CreateInternetGateway_def CreateRouteTable_def CreateRoute_def AssociateRouteTable_def
  CreateSecurityGroup_def CreateEKSCluster_def InstallAddons_def addons_def

theorem IamOperations_tolerates_existing_role_witness:
  "IamOperations gw_role_exists ''eu-west-2'' ''EKSClusterRole'' [] =
     (Ok (), [config_LoadDefaultConfig ''eu-west-2'',
              iam_CreateRole ''EKSClusterRole'' assumeRolePolicy,
              iam_AttachRolePolicy ''EKSClusterRole'' ''arn:aws:iam::aws:policy/AmazonEKSClusterPolicy'',
              iam_AttachRolePolicy ''EKSClusterRole''
                ''arn:aws:iam::aws:policy/AmazonEKSVPCResourceController'']) \<and>
   IamOperations gw_role_denied ''eu-west-2'' ''EKSClusterRole'' [] =
     (Err (ErrorString ''failed to create role EKSClusterRole: AccessDenied''),
      [config_LoadDefaultConfig ''eu-west-2'', iam_CreateRole ''EKSClusterRole'' assumeRolePolicy]) \<and>
   fst (main gw_role_exists []) = Ok () \<and>
   list_ex creates_cluster (snd (main gw_role_exists []))"
proof -
  have e: "IamOperations gw_role_exists ''eu-west-2'' ''EKSClusterRole'' [] =
     (Ok (), [config_LoadDefaultConfig ''eu-west-2'',
              iam_CreateRole ''EKSClusterRole'' assumeRolePolicy,
              iam_AttachRolePolicy ''EKSClusterRole'' ''arn:aws:iam::aws:policy/AmazonEKSClusterPolicy'',
              iam_AttachRolePolicy ''EKSClusterRole''
                ''arn:aws:iam::aws:policy/AmazonEKSVPCResourceController''])"
  proof -
    have c1: "gw_unit gw_role_exists [] (config_LoadDefaultConfig ''eu-west-2'') = Inr ()"
      by (simp add: gw_role_exists_def gw_base_def)
    have c2: "gw_unit gw_role_exists ([] @ [config_LoadDefaultConfig ''eu-west-2''])
                (iam_CreateRole ''EKSClusterRole'' assumeRolePolicy) =
              Inl (EntityAlreadyExistsException ''Role with name EKSClusterRole already exists.'')"
      by (simp add: gw_role_exists_def gw_base_def)
    have p: "errors_As_EntityAlreadyExists
               (EntityAlreadyExistsException ''Role with name EKSClusterRole already exists.'')"
      by simp
    have a1: "gw_unit gw_role_exists
                ([] @ [config_LoadDefaultConfig ''eu-west-2'',
                       iam_CreateRole ''EKSClusterRole'' assumeRolePolicy])
                (iam_AttachRolePolicy ''EKSClusterRole''
                   ''arn:aws:iam::aws:policy/AmazonEKSClusterPolicy'') = Inr ()"
      by (simp add: gw_role_exists_def gw_base_def)
    have a2: "gw_unit gw_role_exists
                ([] @ [config_LoadDefaultConfig ''eu-west-2'',
                       iam_CreateRole ''EKSClusterRole'' assumeRolePolicy,
                       iam_AttachRolePolicy ''EKSClusterRole''
                         ''arn:aws:iam::aws:policy/AmazonEKSClusterPolicy''])
                (iam_AttachRolePolicy ''EKSClusterRole''
                   ''arn:aws:iam::aws:policy/AmazonEKSVPCResourceController'') = Inr ()"
      by (simp add: gw_role_exists_def gw_base_def)
    from IamOperations_tolerates_existing_role [OF c1 c2] p a1 a2
    have "IamOperations gw_role_exists ''eu-west-2'' ''EKSClusterRole'' [] =
            (Ok (), [] @ [config_LoadDefaultConfig ''eu-west-2'',
                          iam_CreateRole ''EKSClusterRole'' assumeRolePolicy,
                          iam_AttachRolePolicy ''EKSClusterRole''
                            ''arn:aws:iam::aws:policy/AmazonEKSClusterPolicy'',
                          iam_AttachRolePolicy ''EKSClusterRole''
                            ''arn:aws:iam::aws:policy/AmazonEKSVPCResourceController''])"
      by blast
    then show ?thesis by simp
  qed
  have d: "IamOperations gw_role_denied ''eu-west-2'' ''EKSClusterRole'' [] =
     (Err (ErrorString ''failed to create role EKSClusterRole: AccessDenied''),
      [config_LoadDefaultConfig ''eu-west-2'', iam_CreateRole ''EKSClusterRole'' assumeRolePolicy])"
  proof -
    have c1: "gw_unit gw_role_denied [] (config_LoadDefaultConfig ''eu-west-2'') = Inr ()"
      by (simp add: gw_role_denied_def gw_base_def)
    have c2: "gw_unit gw_role_denied ([] @ [config_LoadDefaultConfig ''eu-west-2''])
                (iam_CreateRole ''EKSClusterRole'' assumeRolePolicy) = Inl (ErrorString ''AccessDenied'')"
      by (simp add: gw_role_denied_def gw_base_def)
    have p: "\<not> errors_As_EntityAlreadyExists (ErrorString ''AccessDenied'')" by simp
    from IamOperations_tolerates_existing_role [OF c1 c2] p
    have "IamOperations gw_role_denied ''eu-west-2'' ''EKSClusterRole'' [] =
            (Err (Errorf (''failed to create role '' @ ''EKSClusterRole'' @ '': '')
                    (ErrorString ''AccessDenied'')),
             [] @ [config_LoadDefaultConfig ''eu-west-2'',
                   iam_CreateRole ''EKSClusterRole'' assumeRolePolicy])"
      by blast
    then show ?thesis by (simp add: Errorf_def)
  qed
  have m: "fst (main gw_role_exists []) = Ok ()"
    "list_ex creates_cluster (snd (main gw_role_exists []))"
    by (simp_all add: create_defs run_defs gw_role_exists_def fixture_defs)
  from e d m show ?thesis by (intro conjI)
qed

section \<open>The danger confirmation gate\<close>

lemma new_calls_append: "new_calls h (h @ tr) = tr"
  by (simp add: new_calls_def)

text \<open>
  C9: in a teardown run in which the provenance check of the selected cluster answers
  false and the operator declines the danger confirmation, \<open>main\<close> returns right after
  the prompt and none of the calls issued in the run is a deleting or detaching call.
\<close>

theorem main_declined_issues_no_delete:
  assumes action: "gw_string gw h (survey_AskOne action_prompt) = Inr ''Delete Cluster''"
    and region: "gw_string gw (h @ [survey_AskOne action_prompt]) (survey_AskOne delete_region_prompt) =
                   Inr region"
    and clusters: "ListEKSClusters gw region
                     (h @ [survey_AskOne action_prompt, survey_AskOne delete_region_prompt]) =
                     (Ok clusters, h1)"
    and nonempty: "clusters \<noteq> []"
    and selected: "gw_string gw h1 (survey_AskOne (select_cluster_prompt clusters)) = Inr selectedCluster"
    and no_tag: "CheckClusterTag gw region selectedCluster ''CreatedBy'' ''EKS-Sandbox-Tool''
                   (h1 @ [survey_AskOne (select_cluster_prompt clusters)]) = (Ok False, h2)"
    and declined: "gw_bool gw h2 (survey_AskOne danger_prompt) = Inr False"
  shows "main gw h = (Ok (), h2 @ [survey_AskOne danger_prompt]) \<and>
         list_all (\<lambda>c. \<not> deleting c) (new_calls h (h2 @ [survey_AskOne danger_prompt]))"
proof
  have sel: "main_delete_selected gw region selectedCluster
               (h1 @ [survey_AskOne (select_cluster_prompt clusters)]) =
             (Ok (), h2 @ [survey_AskOne danger_prompt])"
    using no_tag declined
    by (simp add: main_delete_selected_def seq_def ask_bool_def request_def ret_def)
  have del: "main_delete gw (h @ [survey_AskOne action_prompt]) = (Ok (), h2 @ [survey_AskOne danger_prompt])"
    using region clusters nonempty selected sel
    by (simp add: main_delete_def seq_def ask_string_def request_def)
  show "main gw h = (Ok (), h2 @ [survey_AskOne danger_prompt])"
    using action del by (simp add: main_def seq_def ask_string_def request_def)
  from emitsD [OF ListEKSClusters_emits clusters] obtain t1 where
    t1: "h1 = (h @ [survey_AskOne action_prompt, survey_AskOne delete_region_prompt]) @ t1"
      "list_all read_only t1" by blast
  from emitsD [OF CheckClusterTag_emits no_tag] obtain t2 where
    t2: "h2 = (h1 @ [survey_AskOne (select_cluster_prompt clusters)]) @ t2" "list_all read_only t2"
    by blast
  have "h2 @ [survey_AskOne danger_prompt] =
          h @ ([survey_AskOne action_prompt, survey_AskOne delete_region_prompt] @ t1 @
               [survey_AskOne (select_cluster_prompt clusters)] @ t2 @ [survey_AskOne danger_prompt])"
    using t1(1) t2(1) by simp
  then have "new_calls h (h2 @ [survey_AskOne danger_prompt]) =
          [survey_AskOne action_prompt, survey_AskOne delete_region_prompt] @ t1 @
               [survey_AskOne (select_cluster_prompt clusters)] @ t2 @ [survey_AskOne danger_prompt]"
    by (simp only: new_calls_append)
  moreover have "list_all (\<lambda>c. \<not> deleting c) t1" "list_all (\<lambda>c. \<not> deleting c) t2"
    using t1(2) t2(2) by (auto simp: list_all_iff read_only_not_deleting)
  ultimately show "list_all (\<lambda>c. \<not> deleting c) (new_calls h (h2 @ [survey_AskOne danger_prompt]))"
    by simp
qed

theorem main_declined_issues_no_delete_witness:
  "main gw_foreign_declined [] =
     (Ok (), [survey_AskOne action_prompt, survey_AskOne delete_region_prompt,
              config_LoadDefaultConfig ''eu-west-2'', eks_ListClusters,
              survey_AskOne (select_cluster_prompt [''Sandbox-demo'']),
              config_LoadDefaultConfig ''eu-west-2'', eks_DescribeCluster ''Sandbox-demo'',
              survey_AskOne danger_prompt]) \<and>
   list_all (\<lambda>c. \<not> deleting c)
     (new_calls [] [survey_AskOne action_prompt, survey_AskOne delete_region_prompt,
              config_LoadDefaultConfig ''eu-west-2'', eks_ListClusters,
              survey_AskOne (select_cluster_prompt [''Sandbox-demo'']),
              config_LoadDefaultConfig ''eu-west-2'', eks_DescribeCluster ''Sandbox-demo'',
              survey_AskOne danger_prompt])"
proof -
  let ?gw = gw_foreign_declined
  let ?h1 = "[survey_AskOne action_prompt, survey_AskOne delete_region_prompt,
              config_LoadDefaultConfig ''eu-west-2'', eks_ListClusters]"
  let ?h2 = "[survey_AskOne action_prompt, survey_AskOne delete_region_prompt,
              config_LoadDefaultConfig ''eu-west-2'', eks_ListClusters,
              survey_AskOne (select_cluster_prompt [''Sandbox-demo'']),
              config_LoadDefaultConfig ''eu-west-2'', eks_DescribeCluster ''Sandbox-demo'']"
  note defs = gw_foreign_declined_def gw_base_def operator_string_def action_prompt_def
    delete_region_prompt_def select_cluster_prompt_def
  have a: "gw_string ?gw [] (survey_AskOne action_prompt) = Inr ''Delete Cluster''"
    by (simp add: defs)
  have b: "gw_string ?gw ([] @ [survey_AskOne action_prompt]) (survey_AskOne delete_region_prompt) =
             Inr ''eu-west-2''"
    by (simp add: defs)
  have c: "ListEKSClusters ?gw ''eu-west-2''
             ([] @ [survey_AskOne action_prompt, survey_AskOne delete_region_prompt]) =
             (Ok [''Sandbox-demo''], ?h1)"
    by (simp add: ListEKSClusters_def seq_def request_def ret_def gw_foreign_declined_def gw_base_def)
  have d: "[''Sandbox-demo''] \<noteq> []" by simp
  have e: "gw_string ?gw ?h1 (survey_AskOne (select_cluster_prompt [''Sandbox-demo''])) =
             Inr ''Sandbox-demo''"
    by (simp add: defs)
  have f: "CheckClusterTag ?gw ''eu-west-2'' ''Sandbox-demo'' ''CreatedBy'' ''EKS-Sandbox-Tool''
             (?h1 @ [survey_AskOne (select_cluster_prompt [''Sandbox-demo''])]) = (Ok False, ?h2)"
    by (simp add: CheckClusterTag_cases gw_foreign_declined_def gw_base_def)
  have g: "gw_bool ?gw ?h2 (survey_AskOne danger_prompt) = Inr False"
    by (simp add: gw_foreign_declined_def gw_base_def)
  from main_declined_issues_no_delete [OF a b c d e f g] show ?thesis by simp
qed

section \<open>The reuse option and the two-subnet check\<close>

lemma read_only_not_creates: "read_only c \<Longrightarrow> \<not> creates_cluster c"
  by (cases c) auto

lemma emits_read_only_not_creates: "emits read_only m \<Longrightarrow> emits (\<lambda>c. \<not> creates_cluster c) m"
  by (erule emits_mono) (rule read_only_not_creates)

lemma emits_pure: "emits P (\<lambda>h. (r, h))"
  by (simp add: emits_def run_inv_def)

lemma GetLatestEKSVersion_emits: "emits read_only (GetLatestEKSVersion gw region)"
  unfolding GetLatestEKSVersion_def
  by (auto intro!: emits_intros emits_pure simp: Let_def)

lemma GetAWSAccountDetails_emits: "emits read_only (GetAWSAccountDetails gw region)"
  unfolding GetAWSAccountDetails_def
  by (auto intro!: emits_intros)

lemma attachPolicies_emits: "emits (\<lambda>c. \<not> creates_cluster c) (attachPolicies gw roleName ps)"
  by (induction ps) (auto intro!: emits_intros)

lemma IamOperations_emits: "emits (\<lambda>c. \<not> creates_cluster c) (IamOperations gw region roleName)"
  unfolding IamOperations_def
  by (auto intro!: emits_intros attachPolicies_emits)

lemma ask_emits: "emits read_only (ask_string gw p)" "emits read_only (ask_bool gw p)"
  "emits read_only (ask_strings gw p)"
  by (simp_all add: ask_string_def ask_bool_def ask_strings_def emits_request)

lemma part_002_prologue_emits: "emits (\<lambda>c. \<not> creates_cluster c) (part_002_prologue gw)"
  unfolding part_002_prologue_def
  by (intro emits_seq emits_ret IamOperations_emits
        emits_read_only_not_creates [OF ask_emits(1)]
        emits_read_only_not_creates [OF ask_emits(2)]
        emits_read_only_not_creates [OF GetLatestEKSVersion_emits]
        emits_read_only_not_creates [OF GetAWSAccountDetails_emits])

lemma selectExistingResource_emits:
  "emits read_only fetchFunc \<Longrightarrow> emits read_only (selectExistingResource gw name fetchFunc)"
  unfolding selectExistingResource_def
  by (intro emits_seq emits_ret ask_emits)

lemma selectMultipleSubnets_emits: "emits read_only (selectMultipleSubnets gw region vpcID)"
  unfolding selectMultipleSubnets_def
  by (intro emits_seq emits_ret ask_emits ListSubnets_emits)

lemmas prompt_defs = action_prompt_def delete_region_prompt_def select_cluster_prompt_def
  danger_prompt_def

lemmas list_defs = ListVPCs_def ListSubnets_def ListSecurityGroups_def ListEKSClusters_def
  ListInternetGateways_def ListRouteTables_def vpc_filter_def

section \<open>Where main.go departs from the contract\<close>

text \<open>
  C1: the claim holds for the documented contract but not for main.go. For a cluster that
  carries the provenance tag and no \<open>HostingVPC\<close> tag (what an earlier revision of the tool
  created) the run passes the danger gate, returns normally and issues no deleting call at
  all, because both \<open>DeleteEKSCluster\<close> calls are inside the \<open>if isIsolatedVpc\<close> block. The
  earlier revision of \<open>main\<close> deletes the cluster on the same input.
\<close>

theorem main_never_deletes_cluster_without_hosting_tag:
  "main (gw_base ''Delete Cluster'') [] = (Ok (), untagged_trace) \<and>
   list_all (\<lambda>c. \<not> deleting c) untagged_trace \<and>
   eks_DeleteCluster ''Sandbox-demo'' \<notin> set untagged_trace \<and>
   main_part_002 createCluster_stub (gw_base ''Delete Cluster'') [] =
     (Ok (), untagged_trace @
             [config_LoadDefaultConfig ''eu-west-2'', eks_DeleteCluster ''Sandbox-demo''])"
proof -
  have "main (gw_base ''Delete Cluster'') [] = (Ok (), untagged_trace)"
    by (simp add: main_def main_delete_def main_delete_selected_def main_delete_confirmed_def
          CheckClusterTag_cases list_defs run_defs fixture_defs prompt_defs untagged_trace_def)
  moreover have "list_all (\<lambda>c. \<not> deleting c) untagged_trace"
    "eks_DeleteCluster ''Sandbox-demo'' \<notin> set untagged_trace"
    by (simp_all add: untagged_trace_def)
  moreover have "main_part_002 createCluster_stub (gw_base ''Delete Cluster'') [] =
     (Ok (), untagged_trace @
             [config_LoadDefaultConfig ''eu-west-2'', eks_DeleteCluster ''Sandbox-demo''])"
    by (simp add: main_part_002_def part_002_delete_def part_002_delete_confirmed_def
          DeleteEKSCluster_def
          CheckClusterTag_cases list_defs run_defs fixture_defs prompt_defs untagged_trace_def)
  ultimately show ?thesis by (intro conjI)
qed

text \<open>
  C2: the claim holds for every checked step but not for lines 121 to 123 of main.go, where
  the errors returned by \<open>CreateRoute\<close> and \<open>AssociateRouteTable\<close> are dropped. Against a
  gateway that fails exactly these calls, \<open>CreateRoute\<close> returns the error, yet the run goes
  on to create the security group, the cluster and the add-ons and ends normally.
\<close>

theorem main_discards_route_errors:
  "CreateRoute gw_route_fails ''eu-west-2'' ''rtb-1'' ''0.0.0.0/0'' ''igw-1'' [] =
     (Err (ErrorString ''InvalidGatewayID.NotFound''),
      [config_LoadDefaultConfig ''eu-west-2'', ec2_CreateRoute ''rtb-1'' ''0.0.0.0/0'' ''igw-1'']) \<and>
   AssociateRouteTable gw_route_fails ''eu-west-2'' ''rtb-1'' ''subnet-eu-west-2a'' [] =
     (Err (ErrorString ''InvalidSubnetID.NotFound''),
      [config_LoadDefaultConfig ''eu-west-2'', ec2_AssociateRouteTable ''rtb-1'' ''subnet-eu-west-2a'']) \<and>
   fst (main gw_route_fails []) = Ok () \<and>
   ec2_CreateRoute ''rtb-1'' ''0.0.0.0/0'' ''igw-1'' \<in> set (snd (main gw_route_fails [])) \<and>
   ec2_AssociateRouteTable ''rtb-1'' ''subnet-eu-west-2a'' \<in> set (snd (main gw_route_fails [])) \<and>
   list_ex creates_cluster (snd (main gw_route_fails [])) \<and>
   last (snd (main gw_route_fails [])) = eks_CreateAddon ''Sandbox-demo'' ''vpc-cni''"
proof -
  note gw = gw_route_fails_def fixture_defs prompt_defs
  have "CreateRoute gw_route_fails ''eu-west-2'' ''rtb-1'' ''0.0.0.0/0'' ''igw-1'' [] =
     (Err (ErrorString ''InvalidGatewayID.NotFound''),
      [config_LoadDefaultConfig ''eu-west-2'', ec2_CreateRoute ''rtb-1'' ''0.0.0.0/0'' ''igw-1''])"
    by (simp add: CreateRoute_def run_defs gw)
  moreover have "AssociateRouteTable gw_route_fails ''eu-west-2'' ''rtb-1'' ''subnet-eu-west-2a'' [] =
     (Err (ErrorString ''InvalidSubnetID.NotFound''),
      [config_LoadDefaultConfig ''eu-west-2'', ec2_AssociateRouteTable ''rtb-1'' ''subnet-eu-west-2a''])"
    by (simp add: AssociateRouteTable_def run_defs gw)
  moreover have "fst (main gw_route_fails []) = Ok ()"
    "ec2_CreateRoute ''rtb-1'' ''0.0.0.0/0'' ''igw-1'' \<in> set (snd (main gw_route_fails []))"
    "ec2_AssociateRouteTable ''rtb-1'' ''subnet-eu-west-2a'' \<in> set (snd (main gw_route_fails []))"
    "list_ex creates_cluster (snd (main gw_route_fails []))"
    "last (snd (main gw_route_fails [])) = eks_CreateAddon ''Sandbox-demo'' ''vpc-cni''"
    by (simp_all add: create_defs run_defs gw)
  ultimately show ?thesis by (intro conjI)
qed

lemma part_000_prologue_emits: "emits (\<lambda>c. \<not> creates_cluster c) (part_000_prologue gw)"
  unfolding part_000_prologue_def
  by (intro emits_seq emits_ret IamOperations_emits
        emits_read_only_not_creates [OF ask_emits(1)]
        emits_read_only_not_creates [OF ask_emits(2)]
        emits_read_only_not_creates [OF GetLatestEKSVersion_emits]
        emits_read_only_not_creates [OF GetAWSAccountDetails_emits])

lemma reuse_existing_resources_few:
  assumes "selectExistingResource gw ''VPC'' (ListVPCs gw region) h0 = (Ok vpcID, h1)"
    and "selectMultipleSubnets gw region vpcID h1 = (Ok selectedSubnets, h2)"
    and "length selectedSubnets < 2"
  shows "reuse_existing_resources gw region h0 =
           (Err (ErrorString ''At least two subnets are required for EKS.''), h2)"
    and "\<exists>tr. h2 = h0 @ tr \<and> list_all (\<lambda>c. \<not> creates_cluster c) tr"
proof -
  show "reuse_existing_resources gw region h0 =
           (Err (ErrorString ''At least two subnets are required for EKS.''), h2)"
    using assms by (simp add: reuse_existing_resources_def seq_def fail_def unwrapped_def)
  from emitsD [OF selectExistingResource_emits [OF ListVPCs_emits] assms(1)] obtain t1 where
    t1: "h1 = h0 @ t1" "list_all read_only t1" by blast
  from emitsD [OF selectMultipleSubnets_emits assms(2)] obtain t2 where
    t2: "h2 = h1 @ t2" "list_all read_only t2" by blast
  have "list_all (\<lambda>c. \<not> creates_cluster c) (t1 @ t2)"
    using t1(2) t2(2) by (auto simp: list_all_iff read_only_not_creates)
  moreover have "h2 = h0 @ (t1 @ t2)" using t1(1) t2(1) by simp
  ultimately show "\<exists>tr. h2 = h0 @ tr \<and> list_all (\<lambda>c. \<not> creates_cluster c) tr" by blast
qed

text \<open>
  C8: in a creation run of either revision with the reuse option, when reuse is selected
  and the operator chooses fewer than two subnets, the run ends with the fatal error
  \<open>At least two subnets are required for EKS.\<close> right after the subnet selection, and no
  call issued in the run creates a cluster. For part_002 this holds whatever the
  cluster-creation function is.
\<close>

theorem reuse_with_too_few_subnets:
  assumes reuse: "var_useExistingResources locals"
    and vpc: "selectExistingResource gw ''VPC'' (ListVPCs gw (var_region locals)) h0 = (Ok vpcID, h1)"
    and subnets: "selectMultipleSubnets gw (var_region locals) vpcID h1 = (Ok selectedSubnets, h2)"
    and few: "length selectedSubnets < 2"
  shows "(gw_string gw h (survey_AskOne action_prompt) = Inr ''Create Cluster'' \<and>
          part_002_prologue gw (h @ [survey_AskOne action_prompt]) = (Ok locals, h0) \<longrightarrow>
            main_part_002 createCluster gw h =
              (Err (ErrorString ''At least two subnets are required for EKS.''), h2) \<and>
            list_all (\<lambda>c. \<not> creates_cluster c) (new_calls h h2)) \<and>
         (part_000_prologue gw h = (Ok locals, h0) \<longrightarrow>
            main_part_000 gw h =
              (Err (ErrorString ''At least two subnets are required for EKS.''), h2) \<and>
            list_all (\<lambda>c. \<not> creates_cluster c) (new_calls h h2))"
proof (intro conjI impI)
  note block = reuse_existing_resources_few [OF vpc subnets few]
  from block(2) obtain tr where tr: "h2 = h0 @ tr" "list_all (\<lambda>c. \<not> creates_cluster c) tr"
    by blast
  {
    assume a: "gw_string gw h (survey_AskOne action_prompt) = Inr ''Create Cluster'' \<and>
          part_002_prologue gw (h @ [survey_AskOne action_prompt]) = (Ok locals, h0)"
    have resources: "part_002_resources createCluster gw (var_region locals) (var_clusterName locals)
         (var_k8sVersion locals) (var_accountID locals) (var_useExistingResources locals) h0 =
        (Err (ErrorString ''At least two subnets are required for EKS.''), h2)"
      using block(1) reuse by (simp add: part_002_resources_def seq_def unwrapped_def)
    have create: "part_002_create createCluster gw (h @ [survey_AskOne action_prompt]) =
        (Err (ErrorString ''At least two subnets are required for EKS.''), h2)"
      using a resources by (simp add: part_002_create_def seq_def)
    show "main_part_002 createCluster gw h =
             (Err (ErrorString ''At least two subnets are required for EKS.''), h2)"
      using a create by (simp add: main_part_002_def seq_def ask_string_def request_def)
    from a emitsD [OF part_002_prologue_emits] obtain t0 where
      t0: "h0 = (h @ [survey_AskOne action_prompt]) @ t0" "list_all (\<lambda>c. \<not> creates_cluster c) t0"
      by blast
    have "h2 = h @ ([survey_AskOne action_prompt] @ t0 @ tr)" using t0(1) tr(1) by simp
    then have "new_calls h h2 = [survey_AskOne action_prompt] @ t0 @ tr"
      by (simp only: new_calls_append)
    then show "list_all (\<lambda>c. \<not> creates_cluster c) (new_calls h h2)"
      using t0(2) tr(2) by simp
  }
  {
    assume a: "part_000_prologue gw h = (Ok locals, h0)"
    show "main_part_000 gw h =
             (Err (ErrorString ''At least two subnets are required for EKS.''), h2)"
      using a block(1) reuse by (simp add: main_part_000_def seq_def unwrapped_def)
    from emitsD [OF part_000_prologue_emits a] obtain t0 where
      t0: "h0 = h @ t0" "list_all (\<lambda>c. \<not> creates_cluster c) t0" by blast
    have "h2 = h @ (t0 @ tr)" using t0(1) tr(1) by simp
    then have "new_calls h h2 = t0 @ tr" by (simp only: new_calls_append)
    then show "list_all (\<lambda>c. \<not> creates_cluster c) (new_calls h h2)"
      using t0(2) tr(2) by simp
  }
qed

theorem reuse_with_too_few_subnets_witness:
  "main_part_002 createCluster_stub gw_one_subnet [] =
     (Err (ErrorString ''At least two subnets are required for EKS.''), reuse_trace) \<and>
   list_all (\<lambda>c. \<not> creates_cluster c) (new_calls [] reuse_trace) \<and>
   main_part_000 gw_one_subnet [] =
     (Err (ErrorString ''At least two subnets are required for EKS.''), reuse_trace_000) \<and>
   list_all (\<lambda>c. \<not> creates_cluster c) (new_calls [] reuse_trace_000) \<and>
   length reuse_trace = 19 \<and> length reuse_trace_000 = 18"
proof -
  let ?gw = gw_one_subnet
  note gw = gw_one_subnet_def fixture_defs prompt_defs
  note prologue = run_defs gw GetLatestEKSVersion_def getLatestVersion_def
    GetAWSAccountDetails_def IamOperations_def policies_def reuse_locals_def
  have c: "var_useExistingResources reuse_locals" by (simp add: reuse_locals_def)
  have f: "length [''subnet-1''] < 2" by simp
  have "main_part_002 createCluster_stub ?gw [] =
     (Err (ErrorString ''At least two subnets are required for EKS.''), reuse_trace) \<and>
   list_all (\<lambda>c. \<not> creates_cluster c) (new_calls [] reuse_trace)"
  proof -
    have a: "gw_string ?gw [] (survey_AskOne action_prompt) = Inr ''Create Cluster''"
      by (simp add: gw)
    have b: "part_002_prologue ?gw ([] @ [survey_AskOne action_prompt]) =
               (Ok reuse_locals, take 13 reuse_trace)"
      by (simp add: part_002_prologue_def reuse_trace_def prologue)
    have d: "selectExistingResource ?gw ''VPC'' (ListVPCs ?gw (var_region reuse_locals))
               (take 13 reuse_trace) = (Ok ''vpc-1'', take 16 reuse_trace)"
      by (simp add: selectExistingResource_def list_defs reuse_locals_def reuse_trace_def run_defs gw)
    have e: "selectMultipleSubnets ?gw (var_region reuse_locals) ''vpc-1'' (take 16 reuse_trace) =
               (Ok [''subnet-1''], reuse_trace)"
      by (simp add: selectMultipleSubnets_def list_defs reuse_locals_def reuse_trace_def run_defs gw)
    from reuse_with_too_few_subnets [OF c d e f, of "[]" createCluster_stub] a b
    show ?thesis by blast
  qed
  moreover have "main_part_000 ?gw [] =
     (Err (ErrorString ''At least two subnets are required for EKS.''), reuse_trace_000) \<and>
   list_all (\<lambda>c. \<not> creates_cluster c) (new_calls [] reuse_trace_000)"
  proof -
    have b: "part_000_prologue ?gw [] = (Ok reuse_locals, take 12 reuse_trace_000)"
      by (simp add: part_000_prologue_def reuse_trace_000_def prologue)
    have d: "selectExistingResource ?gw ''VPC'' (ListVPCs ?gw (var_region reuse_locals))
               (take 12 reuse_trace_000) = (Ok ''vpc-1'', take 15 reuse_trace_000)"
      by (simp add: selectExistingResource_def list_defs reuse_locals_def reuse_trace_000_def
            run_defs gw)
    have e: "selectMultipleSubnets ?gw (var_region reuse_locals) ''vpc-1'' (take 15 reuse_trace_000) =
               (Ok [''subnet-1''], reuse_trace_000)"
      by (simp add: selectMultipleSubnets_def list_defs reuse_locals_def reuse_trace_000_def
            run_defs gw)
    from reuse_with_too_few_subnets [OF c d e f, of "[]"] b
    show ?thesis by blast
  qed
  moreover have "length reuse_trace = 19" "length reuse_trace_000 = 18"
    by (simp_all add: reuse_trace_def reuse_trace_000_def)
  ultimately show ?thesis by (intro conjI) blast+
qed

end
